theory Spec2Isabelle
  imports Complex_Main
begin

section \<open>JavaScript strings and regular expressions\<close>

text \<open>
  Strings are modelled as lists of 8-bit characters, a character standing for the code
  unit of the same number, so the development covers JavaScript strings of code units
  below 256: \<open>toLowerCase\<close> folds A-Z and the capital letters of Latin-1, \<open>\s\<close>
  and \<open>trim\<close> take space, tab, line feed, vertical tab, form feed, carriage return and
  the no-break space U+00A0 for white space, \<open>\w\<close> is \<open>[A-Za-z0-9_]\<close>, and
  \<open>length\<close> counts characters.
\<close>

definition is_digit :: "char \<Rightarrow> bool" where
  "is_digit c = (48 \<le> (of_char c :: nat) \<and> (of_char c :: nat) \<le> 57)"

definition is_upper :: "char \<Rightarrow> bool" where
  "is_upper c = (65 \<le> (of_char c :: nat) \<and> (of_char c :: nat) \<le> 90)"

definition is_lower :: "char \<Rightarrow> bool" where
  "is_lower c = (97 \<le> (of_char c :: nat) \<and> (of_char c :: nat) \<le> 122)"

definition is_word_char :: "char \<Rightarrow> bool" where
  "is_word_char c = (if is_lower c then True else if is_upper c then True
                     else if is_digit c then True else c = CHR ''_'')"

definition is_space :: "char \<Rightarrow> bool" where
  "is_space c = (if (of_char c :: nat) = 32 then True
                 else if (of_char c :: nat) = 160 then True
                 else 9 \<le> (of_char c :: nat) \<and> (of_char c :: nat) \<le> 13)"

text \<open>
  The capital letters of Latin-1, U+00C0 to U+00DE without the multiplication sign
  U+00D7: \<open>toLowerCase\<close> maps them, like A-Z, to the character 32 places further.
\<close>

definition is_upper_latin1 :: "char \<Rightarrow> bool" where
  "is_upper_latin1 c = (192 \<le> (of_char c :: nat) \<and> (of_char c :: nat) \<le> 222
                         \<and> (of_char c :: nat) \<noteq> 215)"

definition toLowerChar :: "char \<Rightarrow> char" where
  "toLowerChar c = (if is_upper c then char_of ((of_char c :: nat) + 32)
                    else if is_upper_latin1 c then char_of ((of_char c :: nat) + 32)
                    else c)"

definition toLowerCase :: "string \<Rightarrow> string" where
  "toLowerCase s = map toLowerChar s"

fun startsWith :: "string \<Rightarrow> string \<Rightarrow> bool" where
  "startsWith s [] = True"
| "startsWith [] (p # ps) = False"
| "startsWith (c # cs) (p # ps) = (if c = p then startsWith cs ps else False)"

text \<open>\<open>s.includes(sub)\<close>\<close>

fun str_includes :: "string \<Rightarrow> string \<Rightarrow> bool" where
  "str_includes [] sub = (sub = [])"
| "str_includes (c # cs) sub = (if startsWith (c # cs) sub then True else str_includes cs sub)"

definition trim :: "string \<Rightarrow> string" where
  "trim s = rev (dropWhile is_space (rev (dropWhile is_space s)))"

text \<open>\<open>parseInt(digits, 10)\<close> on a string of decimal digits.\<close>

definition digit_val :: "char \<Rightarrow> nat" where
  "digit_val c = (of_char c :: nat) - 48"

definition parseInt :: "string \<Rightarrow> nat" where
  "parseInt ds = foldl (\<lambda>n c. 10 * n + digit_val c) 0 ds"

text \<open>
  The regular expressions of the source use literals, character classes, \<open>?\<close> on a
  character, class or group, \<open>*\<close> and \<open>+\<close> on a class, alternation and the word
  boundary \<open>\b\<close>. Every one that contains a letter carries the \<open>i\<close> flag and
  is written in lower case, so a character of the input is compared with the pattern
  after folding it to lower case. None carries the \<open>g\<close> flag, so \<open>test\<close> and
  \<open>match\<close> are stateless.
\<close>

datatype cset = Space | Wordc | Digit | Chars string | Union cset cset

fun in_cset :: "cset \<Rightarrow> char \<Rightarrow> bool" where
  "in_cset Space c = is_space c"
| "in_cset Wordc c = is_word_char c"
| "in_cset Digit c = is_digit c"
| "in_cset (Chars cs) c = List.member cs (toLowerChar c)"
| "in_cset (Union a b) c = (if in_cset a c then True else in_cset b c)"

datatype rx = Lit string | One cset | Star cset | Plus cset | Opt rx | Or rx rx
  | Then rx rx | WordB

text \<open>
  A matcher state is the pair of "the previous character is a word character" (all that
  \<open>\b\<close> needs of the text before the position) and the remaining input. \<open>rx_ends\<close>
  lists the states in which a match of the expression started at the given state can
  end, in the order in which a backtracking matcher tries them (greedy quantifiers,
  alternatives left to right).
\<close>

type_synonym mstate = "bool \<times> string"

fun lit_ends :: "string \<Rightarrow> bool \<Rightarrow> string \<Rightarrow> mstate list" where
  "lit_ends [] pw s = [(pw, s)]"
| "lit_ends (p # ps) pw [] = []"
| "lit_ends (p # ps) pw (c # cs) =
     (if toLowerChar c = p then lit_ends ps (is_word_char c) cs else [])"

fun star_ends :: "cset \<Rightarrow> bool \<Rightarrow> string \<Rightarrow> mstate list" where
  "star_ends cs pw [] = [(pw, [])]"
| "star_ends cs pw (c # r) =
     (if in_cset cs c then star_ends cs (is_word_char c) r else []) @ [(pw, c # r)]"

definition at_word_boundary :: "bool \<Rightarrow> string \<Rightarrow> bool" where
  "at_word_boundary pw s = (pw \<noteq> (case s of [] \<Rightarrow> False | c # r \<Rightarrow> is_word_char c))"

fun rx_ends :: "rx \<Rightarrow> bool \<Rightarrow> string \<Rightarrow> mstate list" where
  "rx_ends (Lit p) pw s = lit_ends p pw s"
| "rx_ends (One cs) pw s =
     (case s of [] \<Rightarrow> [] | c # r \<Rightarrow> if in_cset cs c then [(is_word_char c, r)] else [])"
| "rx_ends (Star cs) pw s = star_ends cs pw s"
| "rx_ends (Plus cs) pw s =
     (case s of [] \<Rightarrow> [] | c # r \<Rightarrow> if in_cset cs c then star_ends cs (is_word_char c) r else [])"
| "rx_ends (Opt r) pw s = rx_ends r pw s @ [(pw, s)]"
| "rx_ends (Or a b) pw s = rx_ends a pw s @ rx_ends b pw s"
| "rx_ends (Then a b) pw s = concat (map (\<lambda>(pw', s'). rx_ends b pw' s') (rx_ends a pw s))"
| "rx_ends WordB pw s = (if at_word_boundary pw s then [(pw, s)] else [])"

text \<open>\<open>r.test(s)\<close>: is there a match starting at some position, leftmost first.\<close>

fun rx_test_from :: "rx \<Rightarrow> bool \<Rightarrow> string \<Rightarrow> bool" where
  "rx_test_from r pw [] = (rx_ends r pw [] \<noteq> [])"
| "rx_test_from r pw (c # cs) =
     (if rx_ends r pw (c # cs) \<noteq> [] then True else rx_test_from r (is_word_char c) cs)"

definition rx_test :: "rx \<Rightarrow> string \<Rightarrow> bool" where
  "rx_test r s = rx_test_from r False s"

text \<open>\<open>s.match(r)\<close> without the \<open>g\<close> flag: the text of the first match, if any.\<close>

fun rx_match_from :: "rx \<Rightarrow> bool \<Rightarrow> string \<Rightarrow> string option" where
  "rx_match_from r pw [] =
     (case rx_ends r pw [] of [] \<Rightarrow> None | e # es \<Rightarrow> Some [])"
| "rx_match_from r pw (c # cs) =
     (case rx_ends r pw (c # cs) of
        [] \<Rightarrow> rx_match_from r (is_word_char c) cs
      | e # es \<Rightarrow> Some (take (length (c # cs) - length (snd e)) (c # cs)))"

definition rx_match :: "rx \<Rightarrow> string \<Rightarrow> string option" where
  "rx_match r s = rx_match_from r False s"

text \<open>
  \<open>s.match(/(G)R/)\<close> read at its first capture group: the first match of \<open>G\<close>
  followed by \<open>R\<close>, returning the text that \<open>G\<close> consumed.
\<close>

definition group_at :: "rx \<Rightarrow> rx \<Rightarrow> bool \<Rightarrow> string \<Rightarrow> string option" where
  "group_at g r pw s =
     (case filter (\<lambda>e. rx_ends r (fst e) (snd e) \<noteq> []) (rx_ends g pw s) of
        [] \<Rightarrow> None
      | e # es \<Rightarrow> Some (take (length s - length (snd e)) s))"

fun rx_group_from :: "rx \<Rightarrow> rx \<Rightarrow> bool \<Rightarrow> string \<Rightarrow> string option" where
  "rx_group_from g r pw [] = group_at g r pw []"
| "rx_group_from g r pw (c # cs) =
     (case group_at g r pw (c # cs) of
        None \<Rightarrow> rx_group_from g r (is_word_char c) cs
      | Some m \<Rightarrow> Some m)"

definition rx_group1 :: "rx \<Rightarrow> rx \<Rightarrow> string \<Rightarrow> string option" where
  "rx_group1 g r s = rx_group_from g r False s"

text \<open>Builders for sequences and alternations of several expressions.\<close>

fun seqs :: "rx list \<Rightarrow> rx" where
  "seqs [] = Lit []"
| "seqs [r] = r"
| "seqs (r # rs) = Then r (seqs rs)"

fun alts :: "rx list \<Rightarrow> rx" where
  "alts [] = Lit []"
| "alts [r] = r"
| "alts (r # rs) = Or r (alts rs)"

text \<open>\<open>/\b(...)\b/i\<close>\<close>

definition word :: "rx \<Rightarrow> rx" where
  "word r = Then WordB (Then r WordB)"

section \<open>The eligibility classifier\<close>

text \<open>Optional strings are \<open>string | null | undefined\<close>; \<open>x ?? ""\<close> is \<open>orEmpty\<close>.\<close>

definition orEmpty :: "string option \<Rightarrow> string" where
  "orEmpty x = (case x of None \<Rightarrow> [] | Some s \<Rightarrow> s)"

text \<open>A string used as a condition is true when it is present and not empty.\<close>

definition truthy :: "string option \<Rightarrow> bool" where
  "truthy x = (case x of None \<Rightarrow> False | Some s \<Rightarrow> s \<noteq> [])"

definition sep :: cset where
  "sep = Union Space (Chars ''-'')"

definition roles_rx :: rx where
  "roles_rx = alts [Lit ''developer'', Lit ''engineer'', Lit ''dev'']"

text \<open>\<open>MERN_TITLE_PATTERNS\<close>, each pattern with its label.\<close>

definition MERN_TITLE_PATTERNS :: "(rx \<times> string) list" where
  "MERN_TITLE_PATTERNS =
    [(word (Lit ''mern''), ''MERN''),
     (seqs [WordB, Lit ''full'', Opt (One sep), Lit ''stack'',
            Opt (seqs [Plus Space, Plus Wordc]), Star Space, roles_rx, WordB],
      ''Full Stack Developer''),
     (seqs [WordB, Lit ''react'', Opt (seqs [Opt (Lit ''.''), Lit ''js'']), Star Space,
            roles_rx, WordB],
      ''React Developer''),
     (seqs [WordB, Lit ''node'', Opt (seqs [Opt (Lit ''.''), Lit ''js'']), Star Space,
            roles_rx, WordB],
      ''Node.js Developer''),
     (seqs [WordB, Lit ''nodejs'', Star Space, roles_rx, WordB], ''Node.js Developer'')]"

definition EXCLUDED_TECH :: "string list" where
  "EXCLUDED_TECH =
    [''java developer'', ''java engineer'', ''java backend'', ''spring boot'',
     ''spring framework'', ''j2ee'',
     ''python developer'', ''python engineer'', ''django'', ''flask'',
     ''.net developer'', ''.net engineer'', ''c# developer'', ''c#.net'', ''asp.net'',
     ''php developer'', ''php engineer'', ''laravel'', ''symfony'', ''wordpress developer'',
     ''salesforce'', ''salesforce developer'', ''salesforce engineer'',
     ''flutter developer'', ''flutter engineer'',
     ''android developer'', ''android engineer'', ''kotlin developer'',
     ''ios developer'', ''ios engineer'', ''swift developer'',
     ''angular developer'', ''angular engineer'', ''vue developer'', ''vue engineer'',
     ''react native developer'',
     ''data scientist'', ''data analyst'', ''data engineer'',
     ''machine learning'', ''ml engineer'', ''ai engineer'',
     ''devops engineer'', ''sre engineer'', ''cloud engineer'',
     ''qa engineer'', ''test engineer'', ''sdet'',
     ''sap developer'', ''sap consultant'']"

definition EXCLUDED_FRONTEND_ONLY :: "string list" where
  "EXCLUDED_FRONTEND_ONLY =
    [''frontend developer'', ''front-end developer'', ''front end developer'',
     ''ui developer'', ''ui/ux developer'', ''css developer'']"

definition EXCLUDED_BACKEND_ONLY :: "string list" where
  "EXCLUDED_BACKEND_ONLY = [''backend developer'', ''back-end developer'', ''back end developer'']"

subsection \<open>isSeniorRole\<close>

definition senior_title_rx :: rx where
  "senior_title_rx =
     word (alts [Lit ''staff'', Lit ''principal'', Lit ''lead'', Lit ''architect''])"

text \<open>
  \<open>/(\d+)\+?\s*(?:years?|yrs?)\s*(?:of\s+)?(?:experience|exp)/i\<close>: the capture group
  and what follows it.
\<close>

definition years_group_rx :: rx where
  "years_group_rx = Plus Digit"

definition years_rest_rx :: rx where
  "years_rest_rx =
     seqs [Opt (Lit ''+''), Star Space,
           alts [seqs [Lit ''year'', Opt (Lit ''s'')], seqs [Lit ''yr'', Opt (Lit ''s'')]],
           Star Space, Opt (seqs [Lit ''of'', Plus Space]),
           alts [Lit ''experience'', Lit ''exp'']]"

definition isSeniorRole :: "string \<Rightarrow> string option \<Rightarrow> bool" where
  "isSeniorRole title description =
     (if rx_test senior_title_rx (toLowerCase title) then True
      else case rx_group1 years_group_rx years_rest_rx (toLowerCase (orEmpty description)) of
             None \<Rightarrow> False
           | Some years \<Rightarrow> 6 \<le> parseInt years)"

subsection \<open>isRemoteJob\<close>

datatype remote_reason =
    Onsite_or_hybrid            \<comment> \<open>\<open>"Job is onsite or hybrid"\<close>\<close>
  | Location_restricted string  \<comment> \<open>\<open>`Location restricted: "${location}"`\<close>\<close>
  | Fully_remote                \<comment> \<open>\<open>"Fully remote"\<close>\<close>
  | No_remote_indication        \<comment> \<open>\<open>"No remote indication found"\<close>\<close>

record remote_check =
  remote :: bool
  remote_reason :: remote_reason

definition remote_signals_rx :: rx where
  "remote_signals_rx =
     word (alts [Lit ''remote'', Lit ''work from home'', Lit ''wfh'', Lit ''fully remote'',
                 Lit ''anywhere'', Lit ''worldwide'', Lit ''global'', Lit ''distributed''])"

definition onsite_signals_rx :: rx where
  "onsite_signals_rx =
     word (alts [seqs [Lit ''on'', Opt (One sep), Lit ''site''],
                 seqs [Lit ''in'', Opt (One sep), Lit ''office''],
                 Lit ''hybrid'',
                 seqs [Lit ''office'', Opt (One sep), Lit ''based''],
                 Lit ''must be located'', Lit ''relocation required''])"

definition isLocationSpecific :: "string \<Rightarrow> bool" where
  "isLocationSpecific loc =
     (if str_includes loc ''remote'' then False
      else if str_includes loc ''anywhere'' then False
      else \<not> str_includes loc ''worldwide'')"

definition isRemoteJob :: "string \<Rightarrow> string option \<Rightarrow> string option \<Rightarrow> remote_check" where
  "isRemoteJob title location description =
     (let text = toLowerCase (title @ '' '' @ orEmpty location @ '' '' @ orEmpty description);
          remoteSignals = rx_test remote_signals_rx text
      in if rx_test onsite_signals_rx text
         then \<lparr>remote = False, remote_reason = Onsite_or_hybrid\<rparr>
         else if (if truthy location
                  then (if isLocationSpecific (toLowerCase (orEmpty location))
                        then \<not> remoteSignals else False)
                  else False)
         then \<lparr>remote = False, remote_reason = Location_restricted (orEmpty location)\<rparr>
         else if remoteSignals then \<lparr>remote = True, remote_reason = Fully_remote\<rparr>
         else \<lparr>remote = False, remote_reason = No_remote_indication\<rparr>)"

subsection \<open>descBucketChecks and preferenceSignals\<close>

definition react_rx :: rx where
  "react_rx =
     word (seqs [Lit ''react'', Opt (seqs [Opt (One (Union (Chars ''.'') Space)), Lit ''js''])])"

definition node_rx :: rx where
  "node_rx = word (seqs [Lit ''node'', Opt (seqs [Opt (Lit ''.''), Lit ''js''])])"

definition nodejs_rx :: rx where
  "nodejs_rx = word (Lit ''nodejs'')"

definition mongo_rx :: rx where
  "mongo_rx = word (alts [Lit ''mongodb'', Lit ''mongo''])"

definition express_rx :: rx where
  "express_rx =
     word (alts [seqs [Lit ''express'', Opt (seqs [Opt (Lit ''.''), Lit ''js''])],
                 Lit ''expressjs''])"

definition rest_rx :: rx where
  "rest_rx =
     word (alts [seqs [Lit ''rest'', Star Space, Lit ''api''], Lit ''restful'', Lit ''graphql'',
                 seqs [Lit ''api'', Star Space, Lit ''development'']])"

definition javascript_rx :: rx where
  "javascript_rx =
     word (alts [Lit ''javascript'', Lit ''typescript'', Lit ''es6'', Lit ''es2015'',
                 Lit ''ecmascript''])"

text \<open>The six buckets in the order of the source, each with its test and its name.\<close>

definition bucket_tests :: "((string \<Rightarrow> bool) \<times> string) list" where
  "bucket_tests =
    [(rx_test react_rx, ''React''),
     (\<lambda>d. if rx_test node_rx d then True else rx_test nodejs_rx d, ''Node.js''),
     (rx_test mongo_rx, ''MongoDB''),
     (rx_test express_rx, ''Express''),
     (rx_test rest_rx, ''REST API''),
     (rx_test javascript_rx, ''JavaScript'')]"

record bucket_checks =
  hits :: "string list"
  misses :: "string list"

definition descBucketChecks :: "string \<Rightarrow> bucket_checks" where
  "descBucketChecks d =
     \<lparr>hits = map snd (filter (\<lambda>b. fst b d) bucket_tests),
      misses = map snd (filter (\<lambda>b. \<not> fst b d) bucket_tests)\<rparr>"

definition startup_rx :: rx where
  "startup_rx =
     word (alts [Lit ''startup'', seqs [Lit ''early'', Opt (One sep), Lit ''stage''],
                 Lit ''funded'', seqs [Lit ''series'', Star Space, One (Chars ''abc'')],
                 seqs [Lit ''seed'', Star Space, Lit ''round'']])"

definition product_rx :: rx where
  "product_rx =
     word (alts [seqs [Lit ''product'', Star Space, Lit ''company''],
                 seqs [Lit ''product'', Opt (One sep), Lit ''based''],
                 Lit ''saas'', Lit ''b2b'', Lit ''b2c'', Lit ''platform''])"

definition international_rx :: rx where
  "international_rx =
     word (alts [Lit ''international'', Lit ''global'', Lit ''anywhere'', Lit ''worldwide'',
                 Lit ''no visa'', Lit ''any country''])"

definition early_rx :: rx where
  "early_rx =
     word (alts [seqs [Lit ''early'', Opt (One sep), Lit ''stage''], Lit ''small team'',
                 Lit ''founding'',
                 seqs [Lit ''first'', Star Space, Plus Digit, Star Space, Lit ''engineer'']])"

definition preference_tests :: "(rx \<times> string) list" where
  "preference_tests =
    [(startup_rx, ''startup''), (product_rx, ''product company''),
     (international_rx, ''international hiring''), (early_rx, ''early-stage team'')]"

definition preferenceSignals :: "string \<Rightarrow> string \<Rightarrow> string list" where
  "preferenceSignals title description =
     (let text = toLowerCase (title @ '' '' @ description)
      in map snd (filter (\<lambda>p. rx_test (fst p) text) preference_tests))"

subsection \<open>isMatchingMERNTitle and isExcludedJob\<close>

definition isMatchingMERNTitle :: "string \<Rightarrow> bool" where
  "isMatchingMERNTitle title =
     list_ex (\<lambda>p. rx_test (fst p) (trim (toLowerCase title))) MERN_TITLE_PATTERNS"

datatype excl_reason =
    Excluded_tech string   \<comment> \<open>\<open>`Title contains excluded tech: "${tech}"`\<close>\<close>
  | Frontend_only string   \<comment> \<open>\<open>`Frontend-only role: "${fe}"`\<close>\<close>
  | Backend_only string    \<comment> \<open>\<open>`Backend-only role without Node.js: "${be}"`\<close>\<close>
  | No_reason              \<comment> \<open>\<open>""\<close>\<close>

record exclusion =
  excluded :: bool
  excl_reason :: excl_reason

definition isExcludedJob :: "string \<Rightarrow> string \<Rightarrow> exclusion" where
  "isExcludedJob title description =
     (let t = toLowerCase title;
          d = toLowerCase (title @ '' '' @ description)
      in case find (str_includes t) EXCLUDED_TECH of
           Some tech \<Rightarrow> \<lparr>excluded = True, excl_reason = Excluded_tech tech\<rparr>
         | None \<Rightarrow>
             (case (if str_includes t ''full'' then None
                    else if str_includes t ''mern'' then None
                    else find (str_includes t) EXCLUDED_FRONTEND_ONLY) of
                Some fe \<Rightarrow> \<lparr>excluded = True, excl_reason = Frontend_only fe\<rparr>
              | None \<Rightarrow>
                  (case (if str_includes d ''node'' then None
                         else find (str_includes t) EXCLUDED_BACKEND_ONLY) of
                     Some be \<Rightarrow> \<lparr>excluded = True, excl_reason = Backend_only be\<rparr>
                   | None \<Rightarrow> \<lparr>excluded = False, excl_reason = No_reason\<rparr>)))"

subsection \<open>computeMERNScore\<close>

datatype confidence = Low | Medium | High

text \<open>The entries of \<open>reasons\<close>, one constructor for each message of the source.\<close>

datatype reason =
    Empty_title                       \<comment> \<open>\<open>"Empty title"\<close>\<close>
  | Not_remote remote_reason          \<comment> \<open>\<open>`Not remote: ${remoteCheck.reason}`\<close>\<close>
  | Fully_remote_ok                   \<comment> \<open>\<open>"Fully remote"\<close> with a check mark\<close>
  | Exclusion excl_reason             \<comment> \<open>\<open>exclusion.reason\<close>\<close>
  | Senior_role                       \<comment> \<open>\<open>"Senior role requiring 6+ years experience"\<close>\<close>
  | Title_matches string              \<comment> \<open>\<open>`Title matches: ${titleMatch.label}`\<close>\<close>
  | Title_no_match string             \<comment> \<open>\<open>`Title "${title}" doesn't match any MERN role keyword`\<close>\<close>
  | Description_mentions "string list"  \<comment> \<open>\<open>`Description mentions: ${hits.join(", ")}`\<close>\<close>
  | Description_only_mentions nat     \<comment> \<open>\<open>`Description only mentions ${hits.length}/6 MERN techs (need 2+)`\<close>\<close>
  | No_description                    \<comment> \<open>\<open>"No description available for deep validation"\<close>\<close>
  | Preference_signals "string list"  \<comment> \<open>\<open>`Preference signals: ${prefs.join(", ")}`\<close>\<close>

record MERNScoreResult =
  match_score :: int
  is_match :: bool
  reasons :: "reason list"
  missing_skills :: "string list"
  confidence :: confidence

text \<open>
  The score is a JavaScript number; every value it takes here is a multiple of one half,
  so it is modelled exactly as a rational. \<open>Math.round\<close> rounds to the nearest integer,
  a half upwards.
\<close>

definition Math_round :: "rat \<Rightarrow> int" where
  "Math_round x = \<lfloor>x + 1 / 2\<rfloor>"

text \<open>The early returns with score 0: \<open>{ match_score: 0, is_match: false, reasons, missing_skills: [], confidence: "high" }\<close>.\<close>

definition reject :: "reason list \<Rightarrow> MERNScoreResult" where
  "reject rs = \<lparr>match_score = 0, is_match = False, reasons = rs, missing_skills = [],
                confidence = High\<rparr>"

text \<open>Section 4 and the final evaluation: preference bonus, cap at 100, threshold 65.\<close>

definition finalEvaluation ::
  "string \<Rightarrow> string option \<Rightarrow> rat \<Rightarrow> reason list \<Rightarrow> string list \<Rightarrow> confidence
    \<Rightarrow> MERNScoreResult" where
  "finalEvaluation title description score rs missing conf =
     (let prefs = preferenceSignals title (orEmpty description);
          score' = (if length prefs > 0 then score + min (of_nat (length prefs) * 5) 20
                    else score);
          rs' = (if length prefs > 0 then rs @ [Preference_signals prefs] else rs);
          finalScore = min (Math_round score') 100
      in \<lparr>match_score = finalScore, is_match = (finalScore \<ge> 65), reasons = rs',
           missing_skills = missing, confidence = conf\<rparr>)"

text \<open>Rule 3, entered with the score and the reasons accumulated by the title rule.\<close>

definition bucketRule ::
  "string \<Rightarrow> string option \<Rightarrow> rat \<Rightarrow> reason list \<Rightarrow> MERNScoreResult" where
  "bucketRule title description score rs =
     (if (if truthy description then length (orEmpty description) > 50 else False)
      then (let b = descBucketChecks (orEmpty description);
                n = length (hits b);
                bucketScore = min (of_nat n * (15 / 2)) 45;
                score' = score + bucketScore;
                rs' = rs @ [if n \<ge> 2 then Description_mentions (hits b)
                            else Description_only_mentions n];
                conf = (if n \<ge> 4 then High else if n \<ge> 2 then Medium else Low)
            in if n < 2
               then \<lparr>match_score = Math_round score', is_match = False, reasons = rs',
                     missing_skills = misses b, confidence = conf\<rparr>
               else finalEvaluation title description score' rs' (misses b) conf)
      else finalEvaluation title description score (rs @ [No_description]) [] Low)"

definition computeMERNScore ::
  "string \<Rightarrow> string option \<Rightarrow> string option \<Rightarrow> MERNScoreResult" where
  "computeMERNScore title description location =
     (if (if title = [] then True else length (trim title) = 0)
      then reject [Empty_title]
      else let remoteCheck = isRemoteJob title location description
      in if \<not> remote remoteCheck then reject [Not_remote (remote_reason remoteCheck)]
      else let exclusion = isExcludedJob title (orEmpty description)
      in if excluded exclusion then reject [Exclusion (excl_reason exclusion)]
      else if isSeniorRole title description then reject [Senior_role]
      else case find (\<lambda>p. rx_test (fst p) title) MERN_TITLE_PATTERNS of
             None \<Rightarrow> reject [Fully_remote_ok, Title_no_match title]
           | Some titleMatch \<Rightarrow>
               bucketRule title description 35 [Fully_remote_ok, Title_matches (snd titleMatch)])"

subsection \<open>validateMERNJob\<close>

datatype validation_reason =
    Matches_MERN int "reason list"  \<comment> \<open>\<open>`Matches MERN (${match_score}%) ...`\<close> and the joined reasons\<close>
  | Primary_reason reason           \<comment> \<open>\<open>result.reasons[0]\<close>\<close>
  | Does_not_match                  \<comment> \<open>\<open>"Does not match MERN criteria"\<close>\<close>

record validation =
  pass :: bool
  validation_reason :: validation_reason
  score :: MERNScoreResult

definition validateMERNJob ::
  "string \<Rightarrow> string option \<Rightarrow> string option \<Rightarrow> validation" where
  "validateMERNJob title description location =
     (let result = computeMERNScore title description location
      in if is_match result
         then \<lparr>pass = True,
               validation_reason = Matches_MERN (match_score result) (reasons result),
               score = result\<rparr>
         else \<lparr>pass = False,
               validation_reason = (case reasons result of [] \<Rightarrow> Does_not_match
                                    | r # rs \<Rightarrow> Primary_reason r),
               score = result\<rparr>)"

text \<open>
  The pre-click validation loop of \<open>searchLinkedIn\<close>: a job extracted from a search
  card is kept when \<open>FORCE_APPLY\<close> is set or \<open>validateMERNJob(title, null, location)\<close>
  passes.
\<close>

record search_card =
  card_title :: "string option"
  card_company :: "string option"
  card_location :: "string option"
  card_url :: string
  card_easyApply :: bool

definition searchLinkedIn_filter :: "bool \<Rightarrow> search_card list \<Rightarrow> search_card list" where
  "searchLinkedIn_filter forceApply withUrls =
     filter (\<lambda>job. if forceApply then True
                   else pass (validateMERNJob (orEmpty (card_title job)) None (card_location job)))
       withUrls"

section \<open>Numeric answers of the field resolver\<close>

text \<open>\<open>/-?\d+(\.\d+)?/\<close>\<close>

definition numeric_rx :: rx where
  "numeric_rx = seqs [Opt (Lit ''-''), Plus Digit, Opt (seqs [Lit ''.'', Plus Digit])]"

definition extractNumericAnswer :: "string \<Rightarrow> string" where
  "extractNumericAnswer answer = (case rx_match numeric_rx answer of None \<Rightarrow> [] | Some m \<Rightarrow> m)"

definition isSalary :: "string \<Rightarrow> bool" where
  "isSalary lowered =
     (if str_includes lowered ''salary'' then True
      else if str_includes lowered ''ctc'' then True
      else if str_includes lowered ''compensation'' then True
      else if str_includes lowered ''pay'' then True
      else str_includes lowered ''expected'')"

definition isExperience :: "string \<Rightarrow> bool" where
  "isExperience lowered =
     (if str_includes lowered ''years'' then True
      else if str_includes lowered ''experience'' then True
      else if str_includes lowered ''how long'' then True
      else str_includes lowered ''how many'')"

text \<open>The condition under which \<open>fillAIQuestions\<close> treats a text input as numeric.\<close>

definition numericField :: "string \<Rightarrow> string \<Rightarrow> bool" where
  "numericField inputType lowered =
     (if inputType = ''number'' then True
      else if str_includes lowered ''years'' then True
      else if str_includes lowered ''salary'' then True
      else str_includes lowered ''experience'')"

text \<open>
  The value \<open>fillAIQuestions\<close> types into a text input, from the type of the input, its
  label and the sanitized, non-empty answer: \<open>finalNum\<close> on a numeric field, the answer
  cut to 200 characters otherwise.
\<close>

definition fillAIQuestions_value :: "string \<Rightarrow> string \<Rightarrow> string \<Rightarrow> string" where
  "fillAIQuestions_value inputType label answer =
     (let lowered = toLowerCase label
      in if numericField inputType lowered
         then (let numeric = extractNumericAnswer answer
               in if isSalary lowered then (if numeric \<noteq> [] then numeric else ''0'')
                  else if isExperience lowered
                  then (if (if numeric = ''0'' then True else numeric = []) then ''1'' else numeric)
                  else (if numeric \<noteq> [] then numeric else ''1''))
         else take 200 answer)"

section \<open>The queue worker\<close>

datatype status = QUEUED | PROCESSING | APPLIED | FAILED | MANUAL_INTERVENTION

record payload =
  applicationId :: string
  jobId :: string
  userId :: string
  jobUrl :: string
  platform :: string
  attempts :: "int option"

definition MAX_ATTEMPTS :: int where
  "MAX_ATTEMPTS = 3"

datatype event_type = JOB_STARTED | STEP_COMPLETED | ERROR_OCCURRED | JOB_FINISHED

datatype message =
    Automation_completed        \<comment> \<open>\<open>"Automation completed"\<close>\<close>
  | Job_failed_retrying int int \<comment> \<open>\<open>`Job failed, retrying (${attempts}/${MAX_ATTEMPTS})`\<close>\<close>
  | Error_message string        \<comment> \<open>\<open>err?.message ?? "Job failed"\<close>\<close>

record event =
  ev_jobId :: string
  ev_type :: event_type
  ev_message :: message

text \<open>
  What one call of \<open>applyWithBrowser\<close> does as seen by the worker: the states it
  writes for the application, in order, and the message of the error it throws, if any.
\<close>

record apply_outcome =
  writes :: "status list"
  thrown :: "string option"

text \<open>
  The stream holds the entries not yet delivered to the group, oldest first, each with
  its id; \<open>pending\<close> are the ids delivered and not yet acknowledged; \<open>delivered\<close> is
  the log of the payloads handed to the worker by \<open>XREADGROUP\<close>. An entry without a
  \<open>payload\<close> field is \<open>None\<close>. The worker's own calls to the stream, the database and
  the event channel are taken to succeed: when one of them fails \<open>run\<close> rejects and the
  process exits.
\<close>

record worker =
  stream :: "(nat \<times> payload option) list"
  next_id :: nat
  pending :: "nat list"
  db :: "string \<Rightarrow> status option"
  events :: "event list"
  delivered :: "payload list"

definition set_status :: "string \<Rightarrow> status \<Rightarrow> worker \<Rightarrow> worker" where
  "set_status app s w = w\<lparr>db := (db w)(app \<mapsto> s)\<rparr>"

definition xadd :: "payload \<Rightarrow> worker \<Rightarrow> worker" where
  "xadd p w = w\<lparr>stream := stream w @ [(next_id w, Some p)], next_id := Suc (next_id w)\<rparr>"

definition xack :: "nat \<Rightarrow> worker \<Rightarrow> worker" where
  "xack i w = w\<lparr>pending := removeAll i (pending w)\<rparr>"

definition publishEvent :: "event \<Rightarrow> worker \<Rightarrow> worker" where
  "publishEvent e w = w\<lparr>events := events w @ [e]\<rparr>"

text \<open>
  \<open>processJob\<close>: write \<open>PROCESSING\<close>, then run \<open>applyWithBrowser\<close>. The result is the
  error that \<open>applyWithBrowser\<close> throws, if any, and the worker after the writes.
\<close>

definition processJob ::
  "(payload \<Rightarrow> apply_outcome) \<Rightarrow> payload \<Rightarrow> worker \<Rightarrow> string option \<times> worker" where
  "processJob applyJob p w =
     (let w1 = set_status (applicationId p) PROCESSING w;
          out = applyJob p
      in (thrown out, foldl (\<lambda>v s. set_status (applicationId p) s v) w1 (writes out)))"

text \<open>The \<open>attempts\<close> computed in the catch block: \<open>(payload.attempts ?? 0) + 1\<close>.\<close>

definition failure_attempts :: "payload \<Rightarrow> int" where
  "failure_attempts p = (case attempts p of None \<Rightarrow> 0 | Some a \<Rightarrow> a) + 1"

text \<open>The catch block of the worker loop for the entry \<open>i\<close> with payload \<open>p\<close>.\<close>

definition on_failure :: "nat \<Rightarrow> payload \<Rightarrow> string \<Rightarrow> worker \<Rightarrow> worker" where
  "on_failure i p err w =
     (let a = failure_attempts p
      in xack i
          (if a < MAX_ATTEMPTS
           then publishEvent \<lparr>ev_jobId = applicationId p, ev_type = ERROR_OCCURRED,
                               ev_message = Job_failed_retrying a MAX_ATTEMPTS\<rparr>
                  (xadd (p\<lparr>attempts := Some a\<rparr>) w)
           else publishEvent \<lparr>ev_jobId = applicationId p, ev_type = ERROR_OCCURRED,
                               ev_message = Error_message err\<rparr>
                  (set_status (applicationId p) FAILED w)))"

text \<open>The body of the inner \<open>for\<close> loop: one delivered entry.\<close>

definition handle_entry ::
  "(payload \<Rightarrow> apply_outcome) \<Rightarrow> nat \<Rightarrow> payload option \<Rightarrow> worker \<Rightarrow> worker" where
  "handle_entry applyJob i entry w =
     (case entry of
        None \<Rightarrow> xack i w
      | Some p \<Rightarrow>
          (case processJob applyJob p (w\<lparr>delivered := delivered w @ [p]\<rparr>) of
             (None, w') \<Rightarrow>
               xack i (publishEvent \<lparr>ev_jobId = applicationId p, ev_type = JOB_FINISHED,
                                      ev_message = Automation_completed\<rparr> w')
           | (Some err, w') \<Rightarrow> on_failure i p err w'))"

text \<open>
  One iteration of \<open>while (true)\<close>: \<open>XREADGROUP ... COUNT 1 ... ">"\<close> delivers the
  oldest undelivered entry, or nothing when the stream has none (the read times out and
  the loop continues).
\<close>

definition worker_iteration :: "(payload \<Rightarrow> apply_outcome) \<Rightarrow> worker \<Rightarrow> worker" where
  "worker_iteration applyJob w =
     (case stream w of
        [] \<Rightarrow> w
      | (i, entry) # rest \<Rightarrow>
          handle_entry applyJob i entry (w\<lparr>stream := rest, pending := pending w @ [i]\<rparr>))"

text \<open>The loop never ends by itself; \<open>run_worker n\<close> is the worker after \<open>n\<close> iterations.\<close>

fun run_worker :: "(payload \<Rightarrow> apply_outcome) \<Rightarrow> nat \<Rightarrow> worker \<Rightarrow> worker" where
  "run_worker applyJob 0 w = w"
| "run_worker applyJob (Suc n) w = run_worker applyJob n (worker_iteration applyJob w)"

section \<open>The form automation state machine\<close>

text \<open>
  \<open>applyLinkedIn\<close> returns \<open>"APPLIED"\<close>, \<open>"MANUAL"\<close> or \<open>"FAILED"\<close>; its callers
  store the result as an application state.
\<close>

datatype apply_result = RES_APPLIED | RES_MANUAL | RES_FAILED

definition status_of_result :: "apply_result \<Rightarrow> status" where
  "status_of_result r =
     (if r = RES_APPLIED then APPLIED else if r = RES_FAILED then FAILED
      else MANUAL_INTERVENTION)"

text \<open>
  The page is the environment. A probe that the source guards (\<open>.catch(() => false)\<close>,
  \<open>.catch(() => [])\<close>, a \<open>try\<close> block) is an observation, with the guard's default when
  the probe fails. A page operation that the source awaits without a guard may raise,
  and the exception leaves \<open>applyLinkedIn\<close>; the environment says at which of these
  operations it does. Writing the log and publishing events are taken to succeed.
\<close>

datatype error = Page_error

text \<open>
  What one candidate selector of \<open>easyApplySelectors\<close> finds: nothing visible, or a
  visible element with its tag name and \<open>href\<close>.
\<close>

datatype probe = Hidden | Shown string string

definition is_job_card_link :: "string \<Rightarrow> string \<Rightarrow> bool" where
  "is_job_card_link tagName href =
     (if tagName = ''A''
      then (if str_includes href ''similar-jobs'' then True else str_includes href ''collections'')
      else False)"

fun findEasyApply :: "probe list \<Rightarrow> (string \<times> string) option" where
  "findEasyApply [] = None"
| "findEasyApply (Hidden # ps) = findEasyApply ps"
| "findEasyApply (Shown tagName href # ps) =
     (if is_job_card_link tagName href then findEasyApply ps else Some (tagName, href))"

text \<open>The unguarded page operations of one step of the loop, in the order of the source.\<close>

datatype stage =
    Fill          \<comment> \<open>\<open>fillCommonFields\<close>, \<open>fillAIQuestions\<close>\<close>
  | Refill        \<comment> \<open>the second fill and the wait after it\<close>
  | SubmitClick   \<comment> \<open>\<open>btn.click()\<close>\<close>
  | SubmitWait    \<comment> \<open>the wait after the click on Submit\<close>
  | ReviewWait    \<comment> \<open>the wait after the click on Review\<close>
  | ReviewRefill  \<comment> \<open>the fill after a blocked Review\<close>
  | NextWait      \<comment> \<open>the wait after the click on Next\<close>
  | StallWait     \<comment> \<open>the two-second wait when no button was found\<close>
  | ButtonQuery   \<comment> \<open>\<open>page.$(...)\<close> of the give-up check\<close>

record step_obs =
  raises :: "stage list"
  emptyRequiredFields :: nat
  validationErrors :: nat
  submit_visible :: "bool list"
  review_visible :: bool
  postReviewErrors :: nat
  next_visible :: bool
  dismiss_visible :: bool
  timed_out :: bool
  timed_out_after_wait :: bool
  anyButton :: bool

datatype step_end = Return apply_result | Continue | Break | Raise

datatype action = Activate | Click_Submit | Click_Review | Click_Next

definition MAX_STEPS :: nat where
  "MAX_STEPS = 7"

text \<open>
  One iteration of the \<open>for\<close> loop: how it ends and the clicks it makes. \<open>autoSubmit\<close>
  is the configuration flag \<open>AUTO_SUBMIT\<close>.
\<close>

definition form_step :: "bool \<Rightarrow> nat \<Rightarrow> step_obs \<Rightarrow> step_end \<times> action list" where
  "form_step autoSubmit step obs =
     (let allRequiredFilled = (emptyRequiredFields obs = 0 \<and> validationErrors obs = 0)
      in if List.member (raises obs) Fill then (Raise, [])
         else if (if \<not> allRequiredFilled \<and> step < MAX_STEPS - 1
                  then List.member (raises obs) Refill else False)
         then (Raise, [])
         else if list_ex (\<lambda>v. v) (submit_visible obs)
         then (if \<not> autoSubmit then (Return RES_MANUAL, [])
               else if List.member (raises obs) SubmitClick then (Raise, [])
               else if List.member (raises obs) SubmitWait then (Raise, [Click_Submit])
               else (Return RES_APPLIED, [Click_Submit]))
         else if review_visible obs
         then (if List.member (raises obs) ReviewWait then (Raise, [Click_Review])
               else if (if postReviewErrors obs > 0
                        then List.member (raises obs) ReviewRefill else False)
               then (Raise, [Click_Review])
               else (Continue, [Click_Review]))
         else if next_visible obs
         then (if List.member (raises obs) NextWait then (Raise, [Click_Next])
               else (Continue, [Click_Next]))
         else if dismiss_visible obs then (Break, [])
         else if timed_out obs then (Continue, [])
         else if List.member (raises obs) StallWait then (Raise, [])
         else if timed_out_after_wait obs then (Continue, [])
         else if step \<ge> 2
         then (if List.member (raises obs) ButtonQuery then (Raise, [])
               else if \<not> anyButton obs then (Break, [])
               else (Continue, []))
         else (Continue, []))"

text \<open>
  \<open>for (let step = 0; step < MAX_STEPS; step += 1)\<close> and the \<open>return "MANUAL"\<close> after
  it. The environment gives the observations of each step.
\<close>

function form_loop ::
  "bool \<Rightarrow> (nat \<Rightarrow> step_obs) \<Rightarrow> nat \<Rightarrow> (error + apply_result) \<times> action list" where
  "form_loop autoSubmit env step =
     (if step < MAX_STEPS
      then (case form_step autoSubmit step (env step) of
              (Return r, acts) \<Rightarrow> (Inr r, acts)
            | (Raise, acts) \<Rightarrow> (Inl Page_error, acts)
            | (Break, acts) \<Rightarrow> (Inr RES_MANUAL, acts)
            | (Continue, acts) \<Rightarrow>
                (case form_loop autoSubmit env (Suc step) of
                   (res, acts') \<Rightarrow> (res, acts @ acts')))
      else (Inr RES_MANUAL, []))"
  by pat_completeness auto
termination
  by (relation "measure (\<lambda>(a, env, step). MAX_STEPS - step)") auto

text \<open>
  \<open>applyLinkedIn\<close> from its first scan of the page. \<open>pageText\<close> is the text of the body
  (empty when it cannot be read), \<open>candidates\<close> what the ten selectors find, in order,
  \<open>activate_raises\<close> whether an unguarded operation between finding the Easy Apply
  element and the first step raises (the navigation or the click that opens the form).
\<close>

record page_env =
  pageText :: string
  candidates :: "probe list"
  activate_raises :: bool
  steps :: "nat \<Rightarrow> step_obs"

definition applyLinkedIn :: "bool \<Rightarrow> page_env \<Rightarrow> (error + apply_result) \<times> action list" where
  "applyLinkedIn autoSubmit env =
     (if str_includes (pageText env) ''No longer accepting applications''
      then (Inr RES_FAILED, [])
      else case findEasyApply (candidates env) of
             None \<Rightarrow>
               (if (if str_includes (pageText env) ''Application submitted'' then True
                    else str_includes (pageText env) ''Applied '')
                then (Inr RES_APPLIED, [])
                else (Inr RES_MANUAL, []))
           | Some easyApply \<Rightarrow>
               (if activate_raises env then (Inl Page_error, [])
                else case form_loop autoSubmit (steps env) 0 of
                       (res, acts) \<Rightarrow> (res, Activate # acts)))"

text \<open>
  The decision of the specification, in its own words: "Decide next action by priority
  Submit > Review > Next > Stall", from which affordances are visible.
\<close>

datatype nav = Submit | Review | Next | Stall

definition spec_next_action :: "bool \<Rightarrow> bool \<Rightarrow> bool \<Rightarrow> nav" where
  "spec_next_action submit review next =
     (if submit then Submit else if review then Review else if next then Next else Stall)"

text \<open>
  A step reaches its decision when neither the fill nor, if it is made, the second fill
  raises.
\<close>

definition decision_reached :: "nat \<Rightarrow> step_obs \<Rightarrow> bool" where
  "decision_reached step obs =
     (\<not> List.member (raises obs) Fill
      \<and> ((emptyRequiredFields obs = 0 \<and> validationErrors obs = 0)
         \<or> \<not> step < MAX_STEPS - 1 \<or> \<not> List.member (raises obs) Refill))"

section \<open>Writes of the application state\<close>

text \<open>
  The part of the \<open>try\<close> block between the write of \<open>PROCESSING\<close> and the final write:
  it raises, or it rejects the job and writes \<open>FAILED\<close> itself (the URL and MERN
  validations), or it reaches the result of the apply flow.
\<close>

datatype body_outcome = Body_raised | Body_rejected | Body_result apply_result

text \<open>
  \<open>applyWithBrowser\<close>: the states it writes and whether an error leaves it.
  \<open>context_raises\<close>: both attempts to open a page fail, before the \<open>try\<close> block.
  \<open>after_write_raises\<close>: a step between the final write and the end of the \<open>try\<close> block
  raises. \<open>handler_raises\<close>: a step of the \<open>catch\<close> block after its write raises.
\<close>

record apply_env =
  context_raises :: bool
  body :: body_outcome
  after_write_raises :: bool
  handler_raises :: bool
  err_message :: string

definition applyWithBrowser :: "apply_env \<Rightarrow> apply_outcome" where
  "applyWithBrowser env =
     (let handler = (\<lambda>ws. \<lparr>writes = ws @ [FAILED],
                            thrown = (if handler_raises env then Some (err_message env) else None)\<rparr>)
      in if context_raises env then \<lparr>writes = [], thrown = Some (err_message env)\<rparr>
         else case body env of
                Body_raised \<Rightarrow> handler [PROCESSING]
              | Body_rejected \<Rightarrow> \<lparr>writes = [PROCESSING, FAILED], thrown = None\<rparr>
              | Body_result r \<Rightarrow>
                  (if after_write_raises env then handler [PROCESSING, status_of_result r]
                   else \<lparr>writes = [PROCESSING, status_of_result r], thrown = None\<rparr>))"

text \<open>
  The direct application of \<open>runFullAutomation\<close> to one LinkedIn job: the states written
  for its application. After the final write the notification is sent and, when the
  result is \<open>"APPLIED"\<close>, the page waits before the job poster is messaged;
  \<open>notify_raises\<close> and \<open>post_apply_raises\<close> say whether these raise.
\<close>

record direct_env =
  direct_body :: body_outcome
  notify_raises :: bool
  post_apply_raises :: bool

definition direct_apply :: "direct_env \<Rightarrow> status list" where
  "direct_apply env =
     (case direct_body env of
        Body_raised \<Rightarrow> [PROCESSING, FAILED]
      | Body_rejected \<Rightarrow> [PROCESSING, FAILED]
      | Body_result r \<Rightarrow>
          (if notify_raises env then [PROCESSING, status_of_result r, FAILED]
           else if r = RES_APPLIED \<and> post_apply_raises env
           then [PROCESSING, status_of_result r, FAILED]
           else [PROCESSING, status_of_result r]))"

text \<open>
  The invariant of the specification on a sequence of writes for one application: after
  a write of a terminal state, every later write is of the same state.
\<close>

definition terminal :: "status \<Rightarrow> bool" where
  "terminal s = (s = APPLIED \<or> s = FAILED)"

fun never_reentered :: "status list \<Rightarrow> bool" where
  "never_reentered [] = True"
| "never_reentered (s # ws) = ((if terminal s then list_all (\<lambda>w. w = s) ws else True)
                               \<and> never_reentered ws)"

section \<open>Example inputs\<close>

text \<open>
  Concrete inputs at which the theorems below are evaluated. First a job for which no
  browser page can be opened, so that \<open>applyWithBrowser\<close> throws at every delivery.
\<close>

definition no_browser :: apply_env where
  "no_browser = \<lparr>context_raises = True, body = Body_raised, after_write_raises = False,
                  handler_raises = False, err_message = ''browser launch failed''\<rparr>"

definition failing_browser :: "payload \<Rightarrow> apply_outcome" where
  "failing_browser q = applyWithBrowser no_browser"

definition fresh_job :: payload where
  "fresh_job = \<lparr>applicationId = ''app-1'', jobId = ''job-1'', userId = ''user-1'',
                 jobUrl = ''https://www.linkedin.com/jobs/view/1/'', platform = ''LINKEDIN'',
                 attempts = Some 0\<rparr>"

definition fresh_worker :: worker where
  "fresh_worker = \<lparr>stream = [(0, Some fresh_job)], next_id = 1, pending = [],
                    db = [''app-1'' \<mapsto> QUEUED], events = [], delivered = []\<rparr>"

text \<open>
  A page that shows the same thing at every step: only a Next button; no button at all;
  no button at all and a button query that fails.
\<close>

definition every_step :: "step_obs \<Rightarrow> nat \<Rightarrow> step_obs" where
  "every_step obs n = obs"

definition next_only :: step_obs where
  "next_only = \<lparr>raises = [], emptyRequiredFields = 0, validationErrors = 0,
                 submit_visible = [False, False, False, False, False],
                 review_visible = False, postReviewErrors = 0, next_visible = True,
                 dismiss_visible = False, timed_out = False, timed_out_after_wait = False,
                 anyButton = True\<rparr>"

definition no_button :: step_obs where
  "no_button = next_only\<lparr>next_visible := False, anyButton := False\<rparr>"

definition query_fails :: step_obs where
  "query_fails = no_button\<lparr>raises := [ButtonQuery]\<rparr>"

definition job_page :: "string \<Rightarrow> probe list \<Rightarrow> step_obs \<Rightarrow> page_env" where
  "job_page txt found obs =
     \<lparr>pageText = txt, candidates = found, activate_raises = False, steps = every_step obs\<rparr>"

text \<open>
  A queue job whose application is submitted without any error, and a direct
  application that is submitted and whose page is closed before the wait that follows
  the final write.
\<close>

definition submitted_job :: apply_env where
  "submitted_job = \<lparr>context_raises = False, body = Body_result RES_APPLIED,
                     after_write_raises = False, handler_raises = False, err_message = []\<rparr>"

definition page_closed_after_submit :: direct_env where
  "page_closed_after_submit =
     \<lparr>direct_body = Body_result RES_APPLIED, notify_raises = False, post_apply_raises = True\<rparr>"

text \<open>
  A job whose application raises inside the \<open>try\<close> block of \<open>applyWithBrowser\<close> (the
  navigation to the job page times out) at every delivery, with an error handler that
  completes.
\<close>

definition caught_failure :: apply_env where
  "caught_failure = \<lparr>context_raises = False, body = Body_raised, after_write_raises = False,
                      handler_raises = False,
                      err_message = ''page.goto: Timeout 30000ms exceeded''\<rparr>"

definition failing_application :: "payload \<Rightarrow> apply_outcome" where
  "failing_application q = applyWithBrowser caught_failure"

text \<open>
  A queue job that is submitted and whose notification raises after the final write. And
  a job whose first delivery raises in the \<open>try\<close> block and again in the error handler,
  after the handler's write, and whose later deliveries are submitted without error.
\<close>

definition notification_fails_after_submit :: apply_env where
  "notification_fails_after_submit =
     \<lparr>context_raises = False, body = Body_result RES_APPLIED, after_write_raises = True,
      handler_raises = False, err_message = ''Connection is closed.''\<rparr>"

definition handler_fails :: apply_env where
  "handler_fails = \<lparr>context_raises = False, body = Body_raised, after_write_raises = False,
                     handler_raises = True, err_message = ''Connection is closed.''\<rparr>"

definition submitted_on_redelivery :: "payload \<Rightarrow> apply_outcome" where
  "submitted_on_redelivery q =
     applyWithBrowser (if attempts q = Some 0 then handler_fails else submitted_job)"

section \<open>Evaluating character tests\<close>

text \<open>
  The character tests read the code of a character; for evaluation they are restated on
  its eight bits. \<open>letter_bits\<close> says that the low five bits are a number from 1 to 26.
\<close>

definition letter_bits :: "bool \<Rightarrow> bool \<Rightarrow> bool \<Rightarrow> bool \<Rightarrow> bool \<Rightarrow> bool" where
  "letter_bits b0 b1 b2 b3 b4 =
     (if b4 then (if b3 then (if b2 then False else if b1 then \<not> b0 else True) else True)
      else (if b3 then True else if b2 then True else if b1 then True else b0))"

lemma is_upper_code [code]:
  "is_upper (Char b0 b1 b2 b3 b4 b5 b6 b7) =
     (if b7 then False else if b6 then (if b5 then False else letter_bits b0 b1 b2 b3 b4) else False)"
  by (cases b0; cases b1; cases b2; cases b3; cases b4; cases b5; cases b6; cases b7;
      simp add: is_upper_def letter_bits_def)

lemma is_lower_code [code]:
  "is_lower (Char b0 b1 b2 b3 b4 b5 b6 b7) =
     (if b7 then False else if b6 then (if b5 then letter_bits b0 b1 b2 b3 b4 else False) else False)"
  by (cases b0; cases b1; cases b2; cases b3; cases b4; cases b5; cases b6; cases b7;
      simp add: is_lower_def letter_bits_def)

lemma is_digit_code [code]:
  "is_digit (Char b0 b1 b2 b3 b4 b5 b6 b7) =
     (if b7 then False else if b6 then False else if b5
      then (if b4 then (if b3 then (if b2 then False else \<not> b1) else True) else False)
      else False)"
  by (cases b0; cases b1; cases b2; cases b3; cases b4; cases b5; cases b6; cases b7;
      simp add: is_digit_def)

lemma is_space_code [code]:
  "is_space (Char b0 b1 b2 b3 b4 b5 b6 b7) =
     (if b6 then False
      else if b5 then (if b4 then False else if b3 then False else if b2 then False
                       else if b1 then False else \<not> b0)
      else if b7 then False
      else if b4 then False
      else if b3 then (if b2 then \<not> b1 else if b1 then True else b0)
      else False)"
  by (cases b0; cases b1; cases b2; cases b3; cases b4; cases b5; cases b6; cases b7;
      simp add: is_space_def)

lemma is_upper_latin1_code [code]:
  "is_upper_latin1 (Char b0 b1 b2 b3 b4 b5 b6 b7) =
     (if b7 then (if b6 then (if b5 then False
                              else if b0 then (if b1 then (if b2 then \<not> b4 else True) else True)
                              else True)
                  else False)
      else False)"
  by (cases b0; cases b1; cases b2; cases b3; cases b4; cases b5; cases b6; cases b7;
      simp add: is_upper_latin1_def)

lemma toLowerChar_code [code]:
  "toLowerChar (Char b0 b1 b2 b3 b4 b5 b6 b7) =
     (if is_upper (Char b0 b1 b2 b3 b4 b5 b6 b7) then Char b0 b1 b2 b3 b4 True b6 b7
      else if is_upper_latin1 (Char b0 b1 b2 b3 b4 b5 b6 b7) then Char b0 b1 b2 b3 b4 True b6 b7
      else Char b0 b1 b2 b3 b4 b5 b6 b7)"
  by (cases b0; cases b1; cases b2; cases b3; cases b4; cases b5; cases b6; cases b7;
      simp add: toLowerChar_def is_upper_def is_upper_latin1_def char_of_def bit_Suc_0_iff)

section \<open>Properties of the classifier\<close>

lemma Math_round_mono: "x \<le> y \<Longrightarrow> Math_round x \<le> Math_round y"
  unfolding Math_round_def by (simp add: floor_mono)

lemma Math_round_of_int: "Math_round (of_int n) = n"
  unfolding Math_round_def by linarith

lemma Math_round_55: "Math_round 55 = 55"
  using Math_round_of_int [of 55] by simp

lemma is_match_reject: "is_match (reject rs) = False"
  by (simp add: reject_def)

lemma match_score_reject: "match_score (reject rs) = 0"
  by (simp add: reject_def)

lemma finalEvaluation_score:
  "match_score (finalEvaluation t d s rs m c) =
     min (Math_round (if preferenceSignals t (orEmpty d) = [] then s
                      else s + min (of_nat (length (preferenceSignals t (orEmpty d))) * 5) 20)) 100"
  by (simp add: finalEvaluation_def Let_def)

lemma finalEvaluation_is_match:
  "is_match (finalEvaluation t d s rs m c) = (65 \<le> match_score (finalEvaluation t d s rs m c))"
  by (simp add: finalEvaluation_def Let_def)

lemma finalEvaluation_le: "s \<le> 35 \<Longrightarrow> match_score (finalEvaluation t d s rs m c) \<le> 55"
proof -
  assume s: "s \<le> 35"
  let ?b = "(if preferenceSignals t (orEmpty d) = [] then s
             else s + min (of_nat (length (preferenceSignals t (orEmpty d))) * 5) 20)"
  from s have "?b \<le> 55" by auto
  then have "Math_round ?b \<le> 55"
    using Math_round_mono [of ?b 55] Math_round_55 by simp
  then show ?thesis unfolding finalEvaluation_score by simp
qed

lemma bucketRule_short:
  "(case d of None \<Rightarrow> True | Some s \<Rightarrow> length s \<le> 50) \<Longrightarrow>
     bucketRule t d s rs = finalEvaluation t d s (rs @ [No_description]) [] Low"
  by (cases d) (auto simp: bucketRule_def truthy_def orEmpty_def)

lemma bucketRule_floor:
  "length (hits (descBucketChecks x)) < 2 \<Longrightarrow> 50 < length x \<Longrightarrow>
     \<not> is_match (bucketRule t (Some x) s rs)"
  by (auto simp: bucketRule_def truthy_def orEmpty_def Let_def)

lemma computeMERNScore_cases:
  "computeMERNScore t d loc = reject [Empty_title]
   \<or> computeMERNScore t d loc = reject [Not_remote (remote_reason (isRemoteJob t loc d))]
   \<or> computeMERNScore t d loc = reject [Exclusion (excl_reason (isExcludedJob t (orEmpty d)))]
   \<or> computeMERNScore t d loc = reject [Senior_role]
   \<or> computeMERNScore t d loc = reject [Fully_remote_ok, Title_no_match t]
   \<or> (\<exists>l. computeMERNScore t d loc = bucketRule t d 35 [Fully_remote_ok, Title_matches l])"
  by (auto simp: computeMERNScore_def Let_def split: option.splits)

text \<open>
  C3. Whatever the title and the location, a description that matches fewer than two of
  the six technology buckets never gives \<open>is_match\<close>. A description longer than 50
  characters is rejected by rule 3; a shorter one skips the rule and the score stays
  below the threshold.
\<close>

theorem hard_floor_below_two_buckets:
  "length (hits (descBucketChecks d)) < 2 \<Longrightarrow> \<not> is_match (computeMERNScore t (Some d) loc)"
proof -
  assume few: "length (hits (descBucketChecks d)) < 2"
  have rule: "\<not> is_match (bucketRule t (Some d) 35 rs)" for rs
  proof (cases "50 < length d")
    case True
    with few show ?thesis by (rule bucketRule_floor)
  next
    case False
    then have "bucketRule t (Some d) 35 rs = finalEvaluation t (Some d) 35 (rs @ [No_description]) [] Low"
      by (intro bucketRule_short) simp
    moreover have "match_score (finalEvaluation t (Some d) 35 (rs @ [No_description]) [] Low) \<le> 55"
      by (rule finalEvaluation_le) simp
    ultimately show ?thesis by (simp add: finalEvaluation_is_match)
  qed
  from computeMERNScore_cases [of t "Some d" loc] show ?thesis
    by (auto simp: is_match_reject rule)
qed

theorem hard_floor_below_two_buckets_witness:
  "length (hits (descBucketChecks ''We are a friendly team and we write software for our customers.'')) < 2
   \<and> \<not> is_match (computeMERNScore ''Full Stack Developer''
          (Some ''We are a friendly team and we write software for our customers.'') (Some ''Remote''))
   \<and> match_score (computeMERNScore ''Full Stack Developer''
          (Some ''We are a friendly team and we write software for our customers.'') (Some ''Remote'')) = 35"
proof -
  have few: "length (hits (descBucketChecks ''We are a friendly team and we write software for our customers.'')) < 2"
    by code_simp
  have sc: "match_score (computeMERNScore ''Full Stack Developer''
          (Some ''We are a friendly team and we write software for our customers.'') (Some ''Remote'')) = 35"
    by code_simp
  from few sc hard_floor_below_two_buckets [OF few] show ?thesis by blast
qed

lemma pass_validateMERNJob: "pass (validateMERNJob t d loc) = is_match (computeMERNScore t d loc)"
  by (simp add: validateMERNJob_def Let_def)

lemma finalEvaluation_reasons:
  "r \<in> set (reasons (finalEvaluation t d s rs m c)) \<Longrightarrow>
     r \<in> set rs \<or> (\<exists>ps. r = Preference_signals ps)"
  by (auto simp: finalEvaluation_def Let_def split: if_splits)

lemma finalEvaluation_missing: "missing_skills (finalEvaluation t d s rs m c) = m"
  by (simp add: finalEvaluation_def Let_def)

text \<open>
  C10. When the description is absent or at most 50 characters long the bucket rule is
  skipped: the result carries no bucket reason and no missing skill, the score is at
  most 55 (35 for the title and at most 20 of preference bonus) and \<open>is_match\<close> is
  false. The pre-click validation of \<open>searchLinkedIn\<close> passes no description, so
  without \<open>FORCE_APPLY\<close> it keeps no job. The witness reaches the score 55.
\<close>

theorem short_description_never_matches:
  assumes short: "case d of None \<Rightarrow> True | Some s \<Rightarrow> length s \<le> 50"
  shows "match_score (computeMERNScore t d loc) \<le> 55
    \<and> \<not> is_match (computeMERNScore t d loc)
    \<and> (\<forall>hs. Description_mentions hs \<notin> set (reasons (computeMERNScore t d loc)))
    \<and> (\<forall>n. Description_only_mentions n \<notin> set (reasons (computeMERNScore t d loc)))
    \<and> missing_skills (computeMERNScore t d loc) = []
    \<and> \<not> pass (validateMERNJob t d loc)
    \<and> searchLinkedIn_filter False cards = []"
proof -
  have rule: "bucketRule t' d' 35 rs = finalEvaluation t' d' 35 (rs @ [No_description]) [] Low"
    if "case d' of None \<Rightarrow> True | Some s \<Rightarrow> length s \<le> 50" for t' d' rs
    using that by (rule bucketRule_short)
  have le: "match_score (computeMERNScore t' d' loc') \<le> 55"
    if "case d' of None \<Rightarrow> True | Some s \<Rightarrow> length s \<le> 50" for t' d' loc'
    using computeMERNScore_cases [of t' d' loc'] finalEvaluation_le [of 35 t' d']
    by (auto simp: match_score_reject rule [OF that])
  have nm: "\<not> is_match (computeMERNScore t' d' loc')"
    if sh: "case d' of None \<Rightarrow> True | Some s \<Rightarrow> length s \<le> 50" for t' d' loc'
  proof -
    consider (rej) rs where "computeMERNScore t' d' loc' = reject rs"
      | (fin) rs where "computeMERNScore t' d' loc' = finalEvaluation t' d' 35 rs [] Low"
      using computeMERNScore_cases [of t' d' loc'] by (auto simp: rule [OF sh])
    then show ?thesis
    proof cases
      case rej
      then show ?thesis by (simp add: is_match_reject)
    next
      case fin
      have "match_score (finalEvaluation t' d' 35 rs [] Low) \<le> 55"
        by (rule finalEvaluation_le) simp
      then show ?thesis unfolding fin by (simp add: finalEvaluation_is_match)
    qed
  qed
  have rs: "(\<forall>hs. Description_mentions hs \<notin> set (reasons (computeMERNScore t d loc)))
    \<and> (\<forall>n. Description_only_mentions n \<notin> set (reasons (computeMERNScore t d loc)))
    \<and> missing_skills (computeMERNScore t d loc) = []"
    using computeMERNScore_cases [of t d loc]
    by (auto simp: reject_def rule [OF short] finalEvaluation_missing
             dest!: finalEvaluation_reasons)
  have "\<not> pass (validateMERNJob (orEmpty (card_title job)) None (card_location job))"
    for job :: search_card
    unfolding pass_validateMERNJob by (rule nm) simp
  then have "searchLinkedIn_filter False cards = []"
    by (simp add: searchLinkedIn_filter_def)
  with le [OF short] nm [OF short] rs show ?thesis
    by (simp add: pass_validateMERNJob)
qed

theorem short_description_never_matches_witness:
  "length ''startup saas worldwide small team remote'' \<le> 50
   \<and> match_score (computeMERNScore ''Full Stack Developer''
        (Some ''startup saas worldwide small team remote'') None) = 55
   \<and> \<not> is_match (computeMERNScore ''Full Stack Developer''
        (Some ''startup saas worldwide small team remote'') None)
   \<and> \<not> pass (validateMERNJob ''Full Stack Developer'' None (Some ''Remote''))"
proof -
  have h: "case Some ''startup saas worldwide small team remote'' of None \<Rightarrow> True
           | Some s \<Rightarrow> length s \<le> 50"
    by simp
  have h': "case None :: string option of None \<Rightarrow> True | Some s \<Rightarrow> length s \<le> 50"
    by simp
  have sc: "match_score (computeMERNScore ''Full Stack Developer''
        (Some ''startup saas worldwide small team remote'') None) = 55"
    by code_simp
  from sc short_description_never_matches [OF h] short_description_never_matches [OF h']
  show ?thesis by simp
qed

lemma Math_round_35: "Math_round 35 = 35"
  using Math_round_of_int [of 35] by simp

lemma Math_round_43': "Math_round (85 / 2) = 43"
  unfolding Math_round_def by simp

lemma Math_round_ge_43: "0 \<le> c \<Longrightarrow> 43 \<le> Math_round (50 + c)"
  using Math_round_mono [of "85 / 2" "50 + c"] Math_round_43' by simp

lemma Math_round_50: "Math_round 50 = 50"
  using Math_round_of_int [of 50] by simp

lemma bucketRule_long_few:
  "50 < length x \<Longrightarrow> length (hits (descBucketChecks x)) < 2 \<Longrightarrow>
     match_score (bucketRule t (Some x) s rs)
       = Math_round (s + min (of_nat (length (hits (descBucketChecks x))) * (15 / 2)) 45)"
  by (auto simp: bucketRule_def truthy_def orEmpty_def Let_def)

lemma bucketRule_long_many:
  "50 < length x \<Longrightarrow> 2 \<le> length (hits (descBucketChecks x)) \<Longrightarrow>
     match_score (bucketRule t (Some x) s rs)
       = min (Math_round
               (if preferenceSignals t x = []
                then s + min (of_nat (length (hits (descBucketChecks x))) * (15 / 2)) 45
                else s + min (of_nat (length (hits (descBucketChecks x))) * (15 / 2)) 45
                     + min (of_nat (length (preferenceSignals t x)) * 5) 20)) 100"
  by (auto simp: bucketRule_def truthy_def orEmpty_def Let_def finalEvaluation_score)

lemma bucketRule_mono:
  assumes long: "50 < length x1" "50 < length x2"
    and more: "length (hits (descBucketChecks x2)) = Suc (length (hits (descBucketChecks x1)))"
    and prefs: "preferenceSignals t x1 = preferenceSignals t x2"
  shows "match_score (bucketRule t (Some x1) 35 rs1) \<le> match_score (bucketRule t (Some x2) 35 rs2)"
proof -
  let ?n1 = "length (hits (descBucketChecks x1))"
  let ?n2 = "length (hits (descBucketChecks x2))"
  let ?b = "min (of_nat (length (preferenceSignals t x2)) * 5) (20 :: rat)"
  let ?p = "\<lambda>n :: nat. 35 + min (of_nat n * (15 / 2)) (45 :: rat)"
  have b0: "0 \<le> ?b" by simp
  consider (zero) "?n1 = 0" | (one) "?n1 = 1" | (many) "2 \<le> ?n1" by linarith
  then show ?thesis
  proof cases
    case zero
    with more have n2: "?n2 = 1" by simp
    show ?thesis
      using long zero n2
      by (simp add: bucketRule_long_few Math_round_35 Math_round_43')
  next
    case one
    with more have n2: "?n2 = 2" by simp
    have l: "match_score (bucketRule t (Some x1) 35 rs1) = 43"
      using long one by (simp add: bucketRule_long_few Math_round_43')
    have "43 \<le> match_score (bucketRule t (Some x2) 35 rs2)"
      using long n2 by (simp add: bucketRule_long_many Math_round_50 Math_round_ge_43)
    with l show ?thesis by simp
  next
    case many
    with more have n2: "2 \<le> ?n2" by simp
    let ?A = "\<lambda>x. if preferenceSignals t x = []
        then 35 + min (of_nat (length (hits (descBucketChecks x))) * (15 / 2)) (45 :: rat)
        else 35 + min (of_nat (length (hits (descBucketChecks x))) * (15 / 2)) 45
             + min (of_nat (length (preferenceSignals t x)) * 5) 20"
    have p12: "?p ?n1 \<le> ?p ?n2" using more by (simp add: min_le_iff_disj)
    have "?A x1 \<le> ?A x2"
    proof (cases "preferenceSignals t x2 = []")
      case True
      with prefs p12 show ?thesis by simp
    next
      case False
      with prefs p12 show ?thesis by simp
    qed
    then have "Math_round (?A x1) \<le> Math_round (?A x2)"
      by (rule Math_round_mono)
    then have "min (Math_round (?A x1)) 100 \<le> min (Math_round (?A x2)) 100"
      by linarith
    then show ?thesis
      unfolding bucketRule_long_many [OF long(1) many] bucketRule_long_many [OF long(2) n2] .
  qed
qed

text \<open>
  C8, amended. For two descriptions that are both longer than 50 characters, so that the
  bucket rule is applied to both, one more matched bucket with the remote, exclusion,
  seniority and preference outcomes unchanged never lowers the score. The length
  condition is needed: a description of at most 50 characters skips the bucket rule
  and keeps its preference bonus, while a longer one with fewer than two buckets is cut
  off at 35 or 43 without the bonus; the counterexample below goes from 55 to 43.
\<close>

theorem bucket_monotonicity_long_descriptions:
  assumes long: "50 < length d1" "50 < length d2"
    and more: "length (hits (descBucketChecks d2)) = Suc (length (hits (descBucketChecks d1)))"
    and same_remote: "remote (isRemoteJob t loc (Some d1)) = remote (isRemoteJob t loc (Some d2))"
    and same_exclusion: "excluded (isExcludedJob t d1) = excluded (isExcludedJob t d2)"
    and same_seniority: "isSeniorRole t (Some d1) = isSeniorRole t (Some d2)"
    and same_prefs: "preferenceSignals t d1 = preferenceSignals t d2"
  shows "match_score (computeMERNScore t (Some d1) loc) \<le> match_score (computeMERNScore t (Some d2) loc)"
proof -
  have "match_score (bucketRule t (Some d1) 35 rs) \<le> match_score (bucketRule t (Some d2) 35 rs)"
    for rs
    using long more same_prefs by (rule bucketRule_mono)
  then show ?thesis
    using same_remote same_exclusion same_seniority
    by (auto simp: computeMERNScore_def Let_def orEmpty_def match_score_reject
             split: option.splits)
qed

theorem bucket_monotonicity_long_descriptions_witness:
  "50 < length ''We build our product with React and a lot of care, every day.''
   \<and> 50 < length ''We build our product with React and Node.js, with a lot of care.''
   \<and> length (hits (descBucketChecks ''We build our product with React and Node.js, with a lot of care.''))
       = Suc (length (hits (descBucketChecks ''We build our product with React and a lot of care, every day.'')))
   \<and> match_score (computeMERNScore ''MERN Developer''
         (Some ''We build our product with React and a lot of care, every day.'') (Some ''Remote''))
       \<le> match_score (computeMERNScore ''MERN Developer''
         (Some ''We build our product with React and Node.js, with a lot of care.'') (Some ''Remote''))"
proof -
  let ?d1 = "''We build our product with React and a lot of care, every day.''"
  let ?d2 = "''We build our product with React and Node.js, with a lot of care.''"
  let ?t = "''MERN Developer''"
  have l1: "50 < length ?d1" by simp
  have l2: "50 < length ?d2" by simp
  have h: "length (hits (descBucketChecks ?d2)) = Suc (length (hits (descBucketChecks ?d1)))"
    by code_simp
  have r: "remote (isRemoteJob ?t (Some ''Remote'') (Some ?d1))
           = remote (isRemoteJob ?t (Some ''Remote'') (Some ?d2))"
    by code_simp
  have e: "excluded (isExcludedJob ?t ?d1) = excluded (isExcludedJob ?t ?d2)"
    by code_simp
  have sn: "isSeniorRole ?t (Some ?d1) = isSeniorRole ?t (Some ?d2)"
    by code_simp
  have pr: "preferenceSignals ?t ?d1 = preferenceSignals ?t ?d2"
    by code_simp
  from l1 l2 h bucket_monotonicity_long_descriptions [OF l1 l2 h r e sn pr]
  show ?thesis by blast
qed

theorem bucket_monotonicity_counterexample:
  "length (hits (descBucketChecks ''startup saas worldwide small team remote, using React daily''))
     = length (hits (descBucketChecks ''startup saas worldwide small team remote'')) + 1
   \<and> remote (isRemoteJob ''Full Stack Developer'' None (Some ''startup saas worldwide small team remote''))
     = remote (isRemoteJob ''Full Stack Developer'' None
                (Some ''startup saas worldwide small team remote, using React daily''))
   \<and> excluded (isExcludedJob ''Full Stack Developer'' ''startup saas worldwide small team remote'')
     = excluded (isExcludedJob ''Full Stack Developer''
                  ''startup saas worldwide small team remote, using React daily'')
   \<and> isSeniorRole ''Full Stack Developer'' (Some ''startup saas worldwide small team remote'')
     = isSeniorRole ''Full Stack Developer''
         (Some ''startup saas worldwide small team remote, using React daily'')
   \<and> preferenceSignals ''Full Stack Developer'' ''startup saas worldwide small team remote''
     = preferenceSignals ''Full Stack Developer''
         ''startup saas worldwide small team remote, using React daily''
   \<and> match_score (computeMERNScore ''Full Stack Developer''
        (Some ''startup saas worldwide small team remote'') None) = 55
   \<and> match_score (computeMERNScore ''Full Stack Developer''
        (Some ''startup saas worldwide small team remote, using React daily'') None) = 43"
proof -
  let ?d1 = "''startup saas worldwide small team remote''"
  let ?d2 = "''startup saas worldwide small team remote, using React daily''"
  let ?t = "''Full Stack Developer''"
  have h: "length (hits (descBucketChecks ?d2)) = length (hits (descBucketChecks ?d1)) + 1"
    by code_simp
  have r: "remote (isRemoteJob ?t None (Some ?d1)) = remote (isRemoteJob ?t None (Some ?d2))"
    by code_simp
  have e: "excluded (isExcludedJob ?t ?d1) = excluded (isExcludedJob ?t ?d2)"
    by code_simp
  have sn: "isSeniorRole ?t (Some ?d1) = isSeniorRole ?t (Some ?d2)"
    by code_simp
  have pr: "preferenceSignals ?t ?d1 = preferenceSignals ?t ?d2"
    by code_simp
  have s1: "match_score (computeMERNScore ?t (Some ?d1) None) = 55"
    by code_simp
  have s2: "match_score (computeMERNScore ?t (Some ?d2) None) = 43"
    by code_simp
  from h r e sn pr s1 s2 show ?thesis by blast
qed

lemma reasons_reject: "reasons (reject rs) = rs"
  by (simp add: reject_def)

lemma bucketRule_long_few_reasons:
  "50 < length x \<Longrightarrow> length (hits (descBucketChecks x)) < 2 \<Longrightarrow>
     reasons (bucketRule t (Some x) s rs)
       = rs @ [Description_only_mentions (length (hits (descBucketChecks x)))]"
  by (auto simp: bucketRule_def truthy_def orEmpty_def Let_def)

text \<open>
  C4, amended. After the guard against an empty title the rules run in the order remote,
  exclusion, seniority, title, buckets, preference bonus. The first of the remote,
  exclusion, seniority and title rules that fails ends the evaluation with score 0 and
  its own reason, whatever the later rules would say. A failing bucket rule (a
  description longer than 50 characters with fewer than two buckets) also ends it with
  \<open>is_match\<close> false, but with the score reached so far, 35 or 43, not 0. The witness
  is the scenario of the specification on a remote job: "Senior .NET Developer" with
  "6+ years experience" is rejected by the exclusion rule with score 0 although the
  seniority rule would reject it too. Without any remote wording the same title and
  description are already rejected by the remote rule, as the counterexample shows.
\<close>

theorem rule_order_and_short_circuit:
  assumes title: "t \<noteq> []" "trim t \<noteq> []"
  shows "(\<not> remote (isRemoteJob t loc d) \<longrightarrow>
            match_score (computeMERNScore t d loc) = 0
          \<and> reasons (computeMERNScore t d loc) = [Not_remote (remote_reason (isRemoteJob t loc d))])
    \<and> (remote (isRemoteJob t loc d) \<and> excluded (isExcludedJob t (orEmpty d)) \<longrightarrow>
            match_score (computeMERNScore t d loc) = 0
          \<and> reasons (computeMERNScore t d loc)
              = [Exclusion (excl_reason (isExcludedJob t (orEmpty d)))])
    \<and> (remote (isRemoteJob t loc d) \<and> \<not> excluded (isExcludedJob t (orEmpty d))
          \<and> isSeniorRole t d \<longrightarrow>
            match_score (computeMERNScore t d loc) = 0
          \<and> reasons (computeMERNScore t d loc) = [Senior_role])
    \<and> (remote (isRemoteJob t loc d) \<and> \<not> excluded (isExcludedJob t (orEmpty d))
          \<and> \<not> isSeniorRole t d
          \<and> find (\<lambda>p. rx_test (fst p) t) MERN_TITLE_PATTERNS = None \<longrightarrow>
            match_score (computeMERNScore t d loc) = 0
          \<and> reasons (computeMERNScore t d loc) = [Fully_remote_ok, Title_no_match t])
    \<and> (remote (isRemoteJob t loc d) \<and> \<not> excluded (isExcludedJob t (orEmpty d))
          \<and> \<not> isSeniorRole t d
          \<and> find (\<lambda>p. rx_test (fst p) t) MERN_TITLE_PATTERNS = Some p
          \<and> d = Some x \<and> 50 < length x \<and> length (hits (descBucketChecks x)) < 2 \<longrightarrow>
            \<not> is_match (computeMERNScore t d loc)
          \<and> match_score (computeMERNScore t d loc)
              = (if length (hits (descBucketChecks x)) = 0 then 35 else 43)
          \<and> reasons (computeMERNScore t d loc)
              = [Fully_remote_ok, Title_matches (snd p),
                 Description_only_mentions (length (hits (descBucketChecks x)))])"
proof -
  have few: "match_score (bucketRule t (Some x) 35 rs) = (if length (hits (descBucketChecks x)) = 0 then 35 else 43)"
    if "50 < length x" "length (hits (descBucketChecks x)) < 2" for rs
  proof -
    from that(2) consider "length (hits (descBucketChecks x)) = 0"
      | "length (hits (descBucketChecks x)) = 1" by linarith
    then show ?thesis
      using that by cases (simp_all add: bucketRule_long_few Math_round_35 Math_round_43')
  qed
  show ?thesis
    using title
    by (auto simp: computeMERNScore_def Let_def match_score_reject reasons_reject few
          bucketRule_floor bucketRule_long_few_reasons)
qed

theorem rule_order_and_short_circuit_witness:
  "''Senior .NET Developer'' \<noteq> [] \<and> trim ''Senior .NET Developer'' \<noteq> []
   \<and> remote (isRemoteJob ''Senior .NET Developer'' (Some ''Remote'') (Some ''6+ years experience''))
   \<and> excluded (isExcludedJob ''Senior .NET Developer'' ''6+ years experience'')
   \<and> isSeniorRole ''Senior .NET Developer'' (Some ''6+ years experience'')
   \<and> match_score (computeMERNScore ''Senior .NET Developer'' (Some ''6+ years experience'')
        (Some ''Remote'')) = 0
   \<and> reasons (computeMERNScore ''Senior .NET Developer'' (Some ''6+ years experience'')
        (Some ''Remote'')) = [Exclusion (Excluded_tech ''.net developer'')]"
proof -
  let ?t = "''Senior .NET Developer''"
  let ?d = "''6+ years experience''"
  have t1: "?t \<noteq> []" by simp
  have t2: "trim ?t \<noteq> []" by code_simp
  have r: "remote (isRemoteJob ?t (Some ''Remote'') (Some ?d))" by code_simp
  have e: "excluded (isExcludedJob ?t ?d)" by code_simp
  have er: "excl_reason (isExcludedJob ?t ?d) = Excluded_tech ''.net developer''" by code_simp
  have sn: "isSeniorRole ?t (Some ?d)" by code_simp
  from t1 t2 r e er sn
    rule_order_and_short_circuit [OF t1 t2, of "Some ''Remote''" "Some ?d"]
  show ?thesis by (simp add: orEmpty_def)
qed

theorem rule_order_counterexample:
  "match_score (computeMERNScore ''Full Stack Developer''
      (Some ''We are a friendly team and we write software for our customers.'')
      (Some ''Remote'')) = 35
   \<and> \<not> is_match (computeMERNScore ''Full Stack Developer''
      (Some ''We are a friendly team and we write software for our customers.'')
      (Some ''Remote''))
   \<and> reasons (computeMERNScore ''Full Stack Developer''
      (Some ''We are a friendly team and we write software for our customers.'')
      (Some ''Remote''))
     = [Fully_remote_ok, Title_matches ''Full Stack Developer'', Description_only_mentions 0]
   \<and> reasons (computeMERNScore ''Senior .NET Developer'' (Some ''6+ years experience'') None)
     = [Not_remote No_remote_indication]"
proof -
  have a: "computeMERNScore ''Full Stack Developer''
      (Some ''We are a friendly team and we write software for our customers.'')
      (Some ''Remote'')
    = \<lparr>match_score = 35, is_match = False,
       reasons = [Fully_remote_ok, Title_matches ''Full Stack Developer'',
                  Description_only_mentions 0],
       missing_skills = [''React'', ''Node.js'', ''MongoDB'', ''Express'', ''REST API'',
                         ''JavaScript''],
       confidence = Low\<rparr>"
    by code_simp
  have b: "reasons (computeMERNScore ''Senior .NET Developer'' (Some ''6+ years experience'') None)
     = [Not_remote No_remote_indication]"
    by code_simp
  show ?thesis unfolding a using b by simp
qed

lemma fsd_lower: "toLowerCase ''Full Stack Developer'' = ''full stack developer''"
  by code_simp

lemma fsd_trim: "trim ''Full Stack Developer'' \<noteq> []"
  by code_simp

lemma fsd_tech: "find (str_includes ''full stack developer'') EXCLUDED_TECH = None"
  by code_simp

lemma fsd_full: "str_includes ''full stack developer'' ''full''"
  by code_simp

lemma fsd_backend: "find (str_includes ''full stack developer'') EXCLUDED_BACKEND_ONLY = None"
  by code_simp

lemma fsd_not_excluded: "\<not> excluded (isExcludedJob ''Full Stack Developer'' d)"
  unfolding isExcludedJob_def Let_def fsd_lower fsd_tech
  by (simp add: fsd_full fsd_backend)

lemma fsd_title:
  "map_option snd (find (\<lambda>p. rx_test (fst p) ''Full Stack Developer'') MERN_TITLE_PATTERNS)
     = Some ''Full Stack Developer''"
  by code_simp

lemma Math_round_65: "Math_round 65 = 65"
  using Math_round_of_int [of 65] by simp

text \<open>
  C5, amended. For the title "Full Stack Developer" on a remote job, a description that
  is longer than 50 characters, matches exactly the buckets React, Node.js, MongoDB and
  Express, states no requirement of six or more years and carries no preference signal
  scores 35 + 4 * 7.5 = 65 and is a match. The title is never excluded. The conditions
  on the description are needed: the four names alone, "React, Node.js, MongoDB,
  Express", are 32 characters, the bucket rule is skipped and the score is 35.
\<close>

theorem full_stack_four_buckets_score:
  assumes remote: "remote (isRemoteJob ''Full Stack Developer'' loc (Some d))"
    and junior: "\<not> isSeniorRole ''Full Stack Developer'' (Some d)"
    and long: "50 < length d"
    and four: "hits (descBucketChecks d) = [''React'', ''Node.js'', ''MongoDB'', ''Express'']"
    and no_prefs: "preferenceSignals ''Full Stack Developer'' d = []"
  shows "match_score (computeMERNScore ''Full Stack Developer'' (Some d) loc) = 65
    \<and> is_match (computeMERNScore ''Full Stack Developer'' (Some d) loc)"
proof -
  obtain p where p: "find (\<lambda>p. rx_test (fst p) ''Full Stack Developer'') MERN_TITLE_PATTERNS = Some p"
    using fsd_title by (cases "find (\<lambda>p. rx_test (fst p) ''Full Stack Developer'') MERN_TITLE_PATTERNS") auto
  have c: "computeMERNScore ''Full Stack Developer'' (Some d) loc
            = bucketRule ''Full Stack Developer'' (Some d) 35 [Fully_remote_ok, Title_matches (snd p)]"
    using remote junior fsd_trim fsd_not_excluded [of d] p
    by (simp add: computeMERNScore_def Let_def orEmpty_def)
  have n: "2 \<le> length (hits (descBucketChecks d))" using four by simp
  have s: "match_score (bucketRule ''Full Stack Developer'' (Some d) 35 rs) = 65" for rs
    unfolding bucketRule_long_many [OF long n] using four no_prefs
    by (simp add: Math_round_65)
  have "is_match (bucketRule ''Full Stack Developer'' (Some d) 35 rs)
          = (65 \<le> match_score (bucketRule ''Full Stack Developer'' (Some d) 35 rs))" for rs
    using long n by (auto simp: bucketRule_def truthy_def orEmpty_def Let_def finalEvaluation_is_match)
  with s c show ?thesis by simp
qed

theorem full_stack_four_buckets_score_witness:
  "remote (isRemoteJob ''Full Stack Developer'' (Some ''Remote'')
      (Some ''We build our product with React, Node.js, MongoDB and Express.''))
   \<and> 50 < length ''We build our product with React, Node.js, MongoDB and Express.''
   \<and> hits (descBucketChecks ''We build our product with React, Node.js, MongoDB and Express.'')
       = [''React'', ''Node.js'', ''MongoDB'', ''Express'']
   \<and> match_score (computeMERNScore ''Full Stack Developer''
        (Some ''We build our product with React, Node.js, MongoDB and Express.'') (Some ''Remote'')) = 65
   \<and> is_match (computeMERNScore ''Full Stack Developer''
        (Some ''We build our product with React, Node.js, MongoDB and Express.'') (Some ''Remote''))"
proof -
  let ?d = "''We build our product with React, Node.js, MongoDB and Express.''"
  let ?t = "''Full Stack Developer''"
  have r: "remote (isRemoteJob ?t (Some ''Remote'') (Some ?d))" by code_simp
  have j: "\<not> isSeniorRole ?t (Some ?d)" by code_simp
  have l: "50 < length ?d" by simp
  have f: "hits (descBucketChecks ?d) = [''React'', ''Node.js'', ''MongoDB'', ''Express'']"
    by code_simp
  have n: "preferenceSignals ?t ?d = []" by code_simp
  from r l f full_stack_four_buckets_score [OF r j l f n] show ?thesis by blast
qed

theorem full_stack_short_description_counterexample:
  "remote (isRemoteJob ''Full Stack Developer'' (Some ''Remote'')
      (Some ''React, Node.js, MongoDB, Express''))
   \<and> hits (descBucketChecks ''React, Node.js, MongoDB, Express'')
       = [''React'', ''Node.js'', ''MongoDB'', ''Express'']
   \<and> match_score (computeMERNScore ''Full Stack Developer''
        (Some ''React, Node.js, MongoDB, Express'') (Some ''Remote'')) = 35
   \<and> \<not> is_match (computeMERNScore ''Full Stack Developer''
        (Some ''React, Node.js, MongoDB, Express'') (Some ''Remote''))"
proof -
  let ?d = "''React, Node.js, MongoDB, Express''"
  let ?t = "''Full Stack Developer''"
  have r: "remote (isRemoteJob ?t (Some ''Remote'') (Some ?d))" by code_simp
  have f: "hits (descBucketChecks ?d) = [''React'', ''Node.js'', ''MongoDB'', ''Express'']"
    by code_simp
  have s: "match_score (computeMERNScore ?t (Some ?d) (Some ''Remote'')) = 35" by code_simp
  have m: "\<not> is_match (computeMERNScore ?t (Some ?d) (Some ''Remote''))" by code_simp
  from r f s m show ?thesis by blast
qed

text \<open>
  C9. The source says of experience questions "Never say "0" experience for a known
  skill" and defaults them to "1", and it does so for a label such as "Years of
  experience with React". Two slips let an experience question be answered "0" all
  the same. The salary test comes before the experience test and looks for "pay" and
  "expected" anywhere in the label, so "Years of experience with payment systems" is
  taken for a salary question and keeps the answer "0". And the gate of the numeric
  branch looks for "years", "salary" and "experience" only, so a text input labelled
  "How long have you used TypeScript?", an experience question by the source's own
  test, never reaches the floor and is filled with the answer as it is. The salary
  default itself holds: a number input labelled "Expected salary" with an
  answer without digits is filled with "0".
\<close>

theorem experience_question_answered_zero:
  "isExperience (toLowerCase ''Years of experience with React'')
   \<and> fillAIQuestions_value ''text'' ''Years of experience with React'' ''0'' = ''1''
   \<and> isExperience (toLowerCase ''Years of experience with payment systems'')
   \<and> isSalary (toLowerCase ''Years of experience with payment systems'')
   \<and> extractNumericAnswer ''0'' = ''0''
   \<and> fillAIQuestions_value ''text'' ''Years of experience with payment systems'' ''0'' = ''0''
   \<and> fillAIQuestions_value ''text'' ''Years of experience with payment systems'' ''None yet'' = ''0''
   \<and> isExperience (toLowerCase ''How long have you used TypeScript?'')
   \<and> \<not> isSalary (toLowerCase ''How long have you used TypeScript?'')
   \<and> \<not> numericField ''text'' (toLowerCase ''How long have you used TypeScript?'')
   \<and> fillAIQuestions_value ''text'' ''How long have you used TypeScript?'' ''0'' = ''0''
   \<and> isSalary (toLowerCase ''Expected salary'')
   \<and> extractNumericAnswer ''Negotiable'' = []
   \<and> fillAIQuestions_value ''number'' ''Expected salary'' ''Negotiable'' = ''0''"
proof -
  have r1: "isExperience (toLowerCase ''Years of experience with React'')" by code_simp
  have r2: "fillAIQuestions_value ''text'' ''Years of experience with React'' ''0'' = ''1''"
    by code_simp
  have p1: "isExperience (toLowerCase ''Years of experience with payment systems'')"
    by code_simp
  have p2: "isSalary (toLowerCase ''Years of experience with payment systems'')"
    by code_simp
  have p3: "extractNumericAnswer ''0'' = ''0''" by code_simp
  have p4: "fillAIQuestions_value ''text'' ''Years of experience with payment systems'' ''0'' = ''0''"
    by code_simp
  have p5: "fillAIQuestions_value ''text'' ''Years of experience with payment systems'' ''None yet''
              = ''0''"
    by code_simp
  have h1: "isExperience (toLowerCase ''How long have you used TypeScript?'')" by code_simp
  have h2: "\<not> isSalary (toLowerCase ''How long have you used TypeScript?'')" by code_simp
  have h3: "\<not> numericField ''text'' (toLowerCase ''How long have you used TypeScript?'')"
    by code_simp
  have h4: "fillAIQuestions_value ''text'' ''How long have you used TypeScript?'' ''0'' = ''0''"
    by code_simp
  have s1: "isSalary (toLowerCase ''Expected salary'')" by code_simp
  have s2: "extractNumericAnswer ''Negotiable'' = []" by code_simp
  have s3: "fillAIQuestions_value ''number'' ''Expected salary'' ''Negotiable'' = ''0''"
    by code_simp
  from r1 r2 p1 p2 p3 p4 p5 h1 h2 h3 h4 s1 s2 s3 show ?thesis by blast
qed

lemma set_status_fields [simp]:
  "stream (set_status a s w) = stream w" "next_id (set_status a s w) = next_id w"
  "pending (set_status a s w) = pending w" "delivered (set_status a s w) = delivered w"
  "events (set_status a s w) = events w"
  "db (set_status a s w) a = Some s"
  by (simp_all add: set_status_def)

lemma fold_set_status_fields [simp]:
  "stream (foldl (\<lambda>v s. set_status a s v) w ws) = stream w"
  "next_id (foldl (\<lambda>v s. set_status a s v) w ws) = next_id w"
  "pending (foldl (\<lambda>v s. set_status a s v) w ws) = pending w"
  "delivered (foldl (\<lambda>v s. set_status a s v) w ws) = delivered w"
  by (induction ws arbitrary: w) simp_all

lemma processJob_fields:
  "fst (processJob applyJob p w) = thrown (applyJob p)"
  "stream (snd (processJob applyJob p w)) = stream w"
  "next_id (snd (processJob applyJob p w)) = next_id w"
  "pending (snd (processJob applyJob p w)) = pending w"
  "delivered (snd (processJob applyJob p w)) = delivered w"
  by (simp_all add: processJob_def Let_def)

lemma on_failure_fields:
  "stream (on_failure i p err w)
     = (if failure_attempts p < MAX_ATTEMPTS
        then stream w @ [(next_id w, Some (p\<lparr>attempts := Some (failure_attempts p)\<rparr>))]
        else stream w)"
  "pending (on_failure i p err w) = removeAll i (pending w)"
  "delivered (on_failure i p err w) = delivered w"
  "next_id (on_failure i p err w)
     = (if failure_attempts p < MAX_ATTEMPTS then Suc (next_id w) else next_id w)"
  "\<not> failure_attempts p < MAX_ATTEMPTS \<Longrightarrow> db (on_failure i p err w) (applicationId p) = Some FAILED"
  by (simp_all add: on_failure_def Let_def xack_def xadd_def publishEvent_def)

lemma handle_entry_failure:
  assumes "thrown (applyJob p) = Some err"
  shows "handle_entry applyJob i (Some p) w
           = on_failure i p err (snd (processJob applyJob p (w\<lparr>delivered := delivered w @ [p]\<rparr>)))"
  using assms processJob_fields(1)[of applyJob p "w\<lparr>delivered := delivered w @ [p]\<rparr>"]
  by (cases "processJob applyJob p (w\<lparr>delivered := delivered w @ [p]\<rparr>)")
     (simp add: handle_entry_def)

lemma worker_iteration_failure:
  assumes s: "stream w = (i, Some p) # rest" and f: "thrown (applyJob p) = Some err"
  shows "stream (worker_iteration applyJob w)
           = (if failure_attempts p < MAX_ATTEMPTS
              then rest @ [(next_id w, Some (p\<lparr>attempts := Some (failure_attempts p)\<rparr>))]
              else rest)"
    and "delivered (worker_iteration applyJob w) = delivered w @ [p]"
    and "pending (worker_iteration applyJob w) = removeAll i (pending w @ [i])"
    and "\<not> failure_attempts p < MAX_ATTEMPTS \<Longrightarrow>
           db (worker_iteration applyJob w) (applicationId p) = Some FAILED"
  using s by (simp_all add: worker_iteration_def handle_entry_failure [of applyJob p err, OF f] on_failure_fields
                processJob_fields)

lemma worker_iteration_idle: "stream w = [] \<Longrightarrow> worker_iteration applyJob w = w"
  by (simp add: worker_iteration_def)

lemma run_worker_idle: "stream w = [] \<Longrightarrow> run_worker applyJob n w = w"
  by (induction n) (simp_all add: worker_iteration_idle)

lemma run_worker_add: "run_worker applyJob (m + n) w = run_worker applyJob n (run_worker applyJob m w)"
  by (induction m arbitrary: w) simp_all

lemma fold_set_status_events [simp]:
  "events (foldl (\<lambda>v s. set_status a s v) w ws) = events w"
  by (induction ws arbitrary: w) simp_all

lemma fold_set_status_db:
  "db (foldl (\<lambda>v s. set_status a s v) (set_status a s0 w) ws) a = Some (last (s0 # ws))"
  by (induction ws arbitrary: w s0) (simp_all add: set_status_def)

lemma processJob_db:
  "db (snd (processJob applyJob p w)) (applicationId p)
     = Some (last (PROCESSING # writes (applyJob p)))"
  "events (snd (processJob applyJob p w)) = events w"
  by (simp_all add: processJob_def Let_def fold_set_status_db del: last.simps)

lemma handle_entry_success:
  assumes "thrown (applyJob p) = None"
  shows "handle_entry applyJob i (Some p) w
           = xack i (publishEvent \<lparr>ev_jobId = applicationId p, ev_type = JOB_FINISHED,
                                    ev_message = Automation_completed\<rparr>
                      (snd (processJob applyJob p (w\<lparr>delivered := delivered w @ [p]\<rparr>))))"
  using assms processJob_fields(1)[of applyJob p "w\<lparr>delivered := delivered w @ [p]\<rparr>"]
  by (cases "processJob applyJob p (w\<lparr>delivered := delivered w @ [p]\<rparr>)")
     (simp add: handle_entry_def)

lemma handle_entry_success_fields:
  assumes "thrown (applyJob p) = None"
  shows "stream (handle_entry applyJob i (Some p) w) = stream w"
    and "next_id (handle_entry applyJob i (Some p) w) = next_id w"
    and "pending (handle_entry applyJob i (Some p) w) = removeAll i (pending w)"
    and "delivered (handle_entry applyJob i (Some p) w) = delivered w @ [p]"
    and "events (handle_entry applyJob i (Some p) w)
           = events w @ [\<lparr>ev_jobId = applicationId p, ev_type = JOB_FINISHED,
                           ev_message = Automation_completed\<rparr>]"
    and "db (handle_entry applyJob i (Some p) w) (applicationId p)
           = Some (last (PROCESSING # writes (applyJob p)))"
  unfolding handle_entry_success [of applyJob p, OF assms]
  by (simp_all add: xack_def publishEvent_def processJob_fields processJob_db del: last.simps)

lemma applyWithBrowser_thrown:
  "(thrown (applyWithBrowser env) \<noteq> None)
     = (if context_raises env then True
        else if handler_raises env
        then (case body env of Body_raised \<Rightarrow> True | Body_rejected \<Rightarrow> False
              | Body_result r \<Rightarrow> after_write_raises env)
        else False)"
  by (cases "body env") (simp_all add: applyWithBrowser_def Let_def)

text \<open>
  C1, amended. The worker retries a job only when \<open>processJob\<close> throws, and
  \<open>applyWithBrowser\<close> lets an error out in two cases only: no page can be opened for
  the user, before its \<open>try\<close> block, or its error handler raises itself. For such a
  delivery the worker computes \<open>attempts = (payload.attempts ?? 0) + 1\<close>; if it is below
  \<open>MAX_ATTEMPTS\<close> = 3 the job is appended to the stream as a new entry carrying that
  count and the delivered entry is acknowledged; otherwise the application is set to
  \<open>FAILED\<close>, the entry is acknowledged and nothing is appended. So for a job enqueued
  with \<open>attempts\<close> 0 (as every producer does) or absent, for which \<open>processJob\<close> throws
  at every delivery, the counts computed after \<open>n\<close> iterations of the worker loop are 1
  up to \<open>min n 3\<close>; from the third iteration on the application is \<open>FAILED\<close>, the
  stream is empty, nothing of the job is pending and exactly three deliveries have taken
  place, however long the loop goes on.

  Every other failure of the application is caught inside \<open>applyWithBrowser\<close>, which
  writes \<open>FAILED\<close> and returns. The worker then sees a normal return: it publishes
  \<open>JOB_FINISHED\<close>, acknowledges the entry and appends nothing, so that the job is
  delivered once, its \<open>attempts\<close> is never incremented and the application is \<open>FAILED\<close>
  after the first delivery. In the counterexample the navigation to the job page times
  out at every delivery: one delivery, no retry.
\<close>

theorem retry_only_when_processJob_throws:
  assumes fresh: "attempts job = None \<or> attempts job = Some 0"
    and start: "stream w0 = [(j, Some job)]" "delivered w0 = []"
  shows "(thrown (applyJob p) \<noteq> None \<and> failure_attempts p < MAX_ATTEMPTS \<longrightarrow>
            stream (handle_entry applyJob i (Some p) w)
              = stream w @ [(next_id w, Some (p\<lparr>attempts := Some (failure_attempts p)\<rparr>))]
          \<and> i \<notin> set (pending (handle_entry applyJob i (Some p) w)))
    \<and> (thrown (applyJob p) \<noteq> None \<and> \<not> failure_attempts p < MAX_ATTEMPTS \<longrightarrow>
            stream (handle_entry applyJob i (Some p) w) = stream w
          \<and> db (handle_entry applyJob i (Some p) w) (applicationId p) = Some FAILED
          \<and> i \<notin> set (pending (handle_entry applyJob i (Some p) w)))
    \<and> ((\<forall>q. thrown (applyJob q) \<noteq> None) \<longrightarrow>
            map failure_attempts (delivered (run_worker applyJob n w0)) = map int [1..<Suc (min n 3)])
    \<and> ((\<forall>q. thrown (applyJob q) \<noteq> None) \<and> 3 \<le> n \<longrightarrow>
            db (run_worker applyJob n w0) (applicationId job) = Some FAILED
          \<and> stream (run_worker applyJob n w0) = []
          \<and> length (delivered (run_worker applyJob n w0)) = 3
          \<and> set (pending (run_worker applyJob n w0)) \<subseteq> set (pending w0))
    \<and> (thrown (applyJob p) = None \<longrightarrow>
            stream (handle_entry applyJob i (Some p) w) = stream w
          \<and> delivered (handle_entry applyJob i (Some p) w) = delivered w @ [p]
          \<and> events (handle_entry applyJob i (Some p) w)
              = events w @ [\<lparr>ev_jobId = applicationId p, ev_type = JOB_FINISHED,
                              ev_message = Automation_completed\<rparr>]
          \<and> db (handle_entry applyJob i (Some p) w) (applicationId p)
              = Some (last (PROCESSING # writes (applyJob p)))
          \<and> i \<notin> set (pending (handle_entry applyJob i (Some p) w)))
    \<and> (thrown (applyJob job) = None \<and> 0 < n \<longrightarrow>
            delivered (run_worker applyJob n w0) = [job]
          \<and> stream (run_worker applyJob n w0) = []
          \<and> db (run_worker applyJob n w0) (applicationId job)
              = Some (last (PROCESSING # writes (applyJob job)))
          \<and> events (run_worker applyJob n w0)
              = events w0 @ [\<lparr>ev_jobId = applicationId job, ev_type = JOB_FINISHED,
                               ev_message = Automation_completed\<rparr>]
          \<and> set (pending (run_worker applyJob n w0)) \<subseteq> set (pending w0))
    \<and> (thrown (applyWithBrowser env) \<noteq> None)
         = (if context_raises env then True
            else if handler_raises env
            then (case body env of Body_raised \<Rightarrow> True | Body_rejected \<Rightarrow> False
                  | Body_result r \<Rightarrow> after_write_raises env)
            else False)
    \<and> (\<not> context_raises env \<and> body env = Body_raised \<longrightarrow>
            writes (applyWithBrowser env) = [PROCESSING, FAILED])"
proof -
  \<comment> \<open>one delivery for which \<open>processJob\<close> throws\<close>
  have AB: "(failure_attempts p < MAX_ATTEMPTS \<longrightarrow>
            stream (handle_entry applyJob i (Some p) w)
              = stream w @ [(next_id w, Some (p\<lparr>attempts := Some (failure_attempts p)\<rparr>))]
          \<and> i \<notin> set (pending (handle_entry applyJob i (Some p) w)))
    \<and> (\<not> failure_attempts p < MAX_ATTEMPTS \<longrightarrow>
            stream (handle_entry applyJob i (Some p) w) = stream w
          \<and> db (handle_entry applyJob i (Some p) w) (applicationId p) = Some FAILED
          \<and> i \<notin> set (pending (handle_entry applyJob i (Some p) w)))"
    if t: "thrown (applyJob p) \<noteq> None"
  proof -
    from t obtain err where err: "thrown (applyJob p) = Some err"
      by (cases "thrown (applyJob p)") auto
    have step: "handle_entry applyJob i (Some p) w
        = on_failure i p err (snd (processJob applyJob p (w\<lparr>delivered := delivered w @ [p]\<rparr>)))"
      using err by (rule handle_entry_failure)
    show ?thesis unfolding step by (simp add: on_failure_fields processJob_fields)
  qed
  \<comment> \<open>the three deliveries of a job for which \<open>processJob\<close> always throws\<close>
  have CD: "map failure_attempts (delivered (run_worker applyJob n w0)) = map int [1..<Suc (min n 3)]
      \<and> (3 \<le> n \<longrightarrow>
            db (run_worker applyJob n w0) (applicationId job) = Some FAILED
          \<and> stream (run_worker applyJob n w0) = []
          \<and> length (delivered (run_worker applyJob n w0)) = 3
          \<and> set (pending (run_worker applyJob n w0)) \<subseteq> set (pending w0))"
    if fails: "\<forall>q. thrown (applyJob q) \<noteq> None"
  proof -
    have thrown: "\<exists>err. thrown (applyJob q) = Some err" for q
      using fails [rule_format, of q] by (cases "thrown (applyJob q)") auto
    let ?job1 = "job\<lparr>attempts := Some 1\<rparr>"
    let ?job2 = "job\<lparr>attempts := Some 2\<rparr>"
    let ?w1 = "worker_iteration applyJob w0"
    let ?w2 = "worker_iteration applyJob ?w1"
    let ?w3 = "worker_iteration applyJob ?w2"
    have a0: "failure_attempts job = 1" using fresh by (auto simp: failure_attempts_def)
    have a1: "failure_attempts ?job1 = 2" by (simp add: failure_attempts_def)
    have a2: "failure_attempts ?job2 = 3" by (simp add: failure_attempts_def)
    obtain e0 where e0: "thrown (applyJob job) = Some e0" using thrown by blast
    obtain e1 where e1: "thrown (applyJob ?job1) = Some e1" using thrown by blast
    obtain e2 where e2: "thrown (applyJob ?job2) = Some e2" using thrown by blast
    have s1: "stream ?w1 = [(next_id w0, Some ?job1)]"
      and d1: "delivered ?w1 = [job]"
      and p1: "pending ?w1 = removeAll j (pending w0 @ [j])"
      using worker_iteration_failure(1-3) [of w0 j job "[]" applyJob e0, OF start(1) e0] start(2) a0
      by (simp_all add: MAX_ATTEMPTS_def)
    have s2: "stream ?w2 = [(next_id ?w1, Some ?job2)]"
      and d2: "delivered ?w2 = [job, ?job1]"
      and p2: "pending ?w2 = removeAll (next_id w0) (pending ?w1 @ [next_id w0])"
      using worker_iteration_failure(1-3) [of ?w1 "next_id w0" ?job1 "[]" applyJob e1, OF s1 e1] d1 a1
      by (simp_all add: MAX_ATTEMPTS_def)
    have s3: "stream ?w3 = []"
      and d3: "delivered ?w3 = [job, ?job1, ?job2]"
      and p3: "pending ?w3 = removeAll (next_id ?w1) (pending ?w2 @ [next_id ?w1])"
      and f3: "db ?w3 (applicationId job) = Some FAILED"
      using worker_iteration_failure [of ?w2 "next_id ?w1" ?job2 "[]" applyJob e2, OF s2 e2] d2 a2
      by (simp_all add: MAX_ATTEMPTS_def)
    have pend: "set (pending ?w3) \<subseteq> set (pending w0)"
      unfolding p3 p2 p1 by auto
    have r3: "run_worker applyJob n w0 = ?w3" if "3 \<le> n"
    proof -
      from that obtain m where n: "n = 3 + m" by (auto simp: le_iff_add)
      have "run_worker applyJob 3 w0 = ?w3" by (simp add: numeral_3_eq_3)
      then show ?thesis unfolding n run_worker_add by (simp add: run_worker_idle s3)
    qed
    have C: "map failure_attempts (delivered (run_worker applyJob n w0)) = map int [1..<Suc (min n 3)]"
    proof -
      consider "n = 0" | "n = 1" | "n = 2" | "3 \<le> n" by linarith
      then show ?thesis
      proof cases
        case 1
        then show ?thesis using start(2) by simp
      next
        case 2
        then show ?thesis using d1 a0 by simp
      next
        case 3
        then show ?thesis using d2 a0 a1 by (simp add: numeral_2_eq_2)
      next
        case 4
        then have m: "min n 3 = 3" by simp
        have "[1..<Suc 3] = [1, 2, 3]" by (simp add: upt_rec)
        then show ?thesis unfolding r3 [OF 4] m d3 using a0 a1 a2 by simp
      qed
    qed
    have D: "3 \<le> n \<longrightarrow>
              db (run_worker applyJob n w0) (applicationId job) = Some FAILED
            \<and> stream (run_worker applyJob n w0) = []
            \<and> length (delivered (run_worker applyJob n w0)) = 3
            \<and> set (pending (run_worker applyJob n w0)) \<subseteq> set (pending w0)"
      using r3 f3 s3 d3 pend by simp
    from C D show ?thesis by blast
  qed
  \<comment> \<open>one delivery from which \<open>processJob\<close> returns\<close>
  have E: "stream (handle_entry applyJob i (Some p) w) = stream w
          \<and> delivered (handle_entry applyJob i (Some p) w) = delivered w @ [p]
          \<and> events (handle_entry applyJob i (Some p) w)
              = events w @ [\<lparr>ev_jobId = applicationId p, ev_type = JOB_FINISHED,
                              ev_message = Automation_completed\<rparr>]
          \<and> db (handle_entry applyJob i (Some p) w) (applicationId p)
              = Some (last (PROCESSING # writes (applyJob p)))
          \<and> i \<notin> set (pending (handle_entry applyJob i (Some p) w))"
    if t: "thrown (applyJob p) = None"
    using handle_entry_success_fields [of applyJob p i w, OF t] by simp
  have F: "delivered (run_worker applyJob n w0) = [job]
          \<and> stream (run_worker applyJob n w0) = []
          \<and> db (run_worker applyJob n w0) (applicationId job)
              = Some (last (PROCESSING # writes (applyJob job)))
          \<and> events (run_worker applyJob n w0)
              = events w0 @ [\<lparr>ev_jobId = applicationId job, ev_type = JOB_FINISHED,
                               ev_message = Automation_completed\<rparr>]
          \<and> set (pending (run_worker applyJob n w0)) \<subseteq> set (pending w0)"
    if t: "thrown (applyJob job) = None" and n: "0 < n"
  proof -
    let ?v = "w0\<lparr>stream := [], pending := pending w0 @ [j]\<rparr>"
    let ?w1 = "worker_iteration applyJob w0"
    have w1: "?w1 = handle_entry applyJob j (Some job) ?v"
      using start(1) by (simp add: worker_iteration_def)
    note f = handle_entry_success_fields [of applyJob job j ?v, OF t]
    have s1: "stream ?w1 = []" unfolding w1 using f(1) by simp
    from n obtain m where m: "n = Suc m" by (cases n) auto
    have r: "run_worker applyJob n w0 = ?w1"
      unfolding m by (simp add: run_worker_idle s1)
    show ?thesis unfolding r w1 using f start(2) by auto
  qed
  have G: "(thrown (applyWithBrowser env) \<noteq> None)
         = (if context_raises env then True
            else if handler_raises env
            then (case body env of Body_raised \<Rightarrow> True | Body_rejected \<Rightarrow> False
                  | Body_result r \<Rightarrow> after_write_raises env)
            else False)"
    by (rule applyWithBrowser_thrown)
  have H: "\<not> context_raises env \<and> body env = Body_raised \<longrightarrow>
            writes (applyWithBrowser env) = [PROCESSING, FAILED]"
    by (simp add: applyWithBrowser_def Let_def)
  from AB CD E F G H show ?thesis by blast
qed

theorem retry_only_when_processJob_throws_witness:
  "(\<forall>q. thrown (failing_browser q) \<noteq> None)
   \<and> attempts fresh_job = Some 0
   \<and> stream fresh_worker = [(0, Some fresh_job)] \<and> delivered fresh_worker = []
   \<and> failure_attempts fresh_job < MAX_ATTEMPTS
   \<and> stream (handle_entry failing_browser 0 (Some fresh_job) fresh_worker)
       = stream fresh_worker @ [(1, Some (fresh_job\<lparr>attempts := Some 1\<rparr>))]
   \<and> \<not> failure_attempts (fresh_job\<lparr>attempts := Some 2\<rparr>) < MAX_ATTEMPTS
   \<and> stream (handle_entry failing_browser 0 (Some (fresh_job\<lparr>attempts := Some 2\<rparr>)) fresh_worker)
       = stream fresh_worker
   \<and> db (handle_entry failing_browser 0 (Some (fresh_job\<lparr>attempts := Some 2\<rparr>)) fresh_worker)
         ''app-1'' = Some FAILED
   \<and> map failure_attempts (delivered (run_worker failing_browser 5 fresh_worker)) = [1, 2, 3]
   \<and> db (run_worker failing_browser 5 fresh_worker) ''app-1'' = Some FAILED
   \<and> stream (run_worker failing_browser 5 fresh_worker) = []
   \<and> length (delivered (run_worker failing_browser 5 fresh_worker)) = 3
   \<and> context_raises no_browser
   \<and> thrown (applyWithBrowser no_browser) \<noteq> None
   \<and> \<not> context_raises caught_failure \<and> \<not> handler_raises caught_failure
   \<and> body caught_failure = Body_raised
   \<and> thrown (applyWithBrowser caught_failure) = None
   \<and> writes (applyWithBrowser caught_failure) = [PROCESSING, FAILED]
   \<and> thrown (failing_application fresh_job) = None
   \<and> stream (handle_entry failing_application 0 (Some fresh_job) fresh_worker)
       = stream fresh_worker
   \<and> events (handle_entry failing_application 0 (Some fresh_job) fresh_worker)
       = [\<lparr>ev_jobId = ''app-1'', ev_type = JOB_FINISHED, ev_message = Automation_completed\<rparr>]
   \<and> delivered (run_worker failing_application 5 fresh_worker) = [fresh_job]
   \<and> stream (run_worker failing_application 5 fresh_worker) = []
   \<and> db (run_worker failing_application 5 fresh_worker) ''app-1'' = Some FAILED"
proof -
  have f: "thrown (failing_browser q) \<noteq> None" for q
    by (simp add: failing_browser_def applyWithBrowser_def no_browser_def)
  have a: "attempts fresh_job = None \<or> attempts fresh_job = Some 0" by (simp add: fresh_job_def)
  have s: "stream fresh_worker = [(0, Some fresh_job)]" by (simp add: fresh_worker_def)
  have d: "delivered fresh_worker = []" by (simp add: fresh_worker_def)
  have u: "[1..<Suc (min 5 3)] = [1, 2, 3]" by (simp add: upt_rec)
  have lt: "failure_attempts fresh_job < MAX_ATTEMPTS"
    by (simp add: failure_attempts_def fresh_job_def MAX_ATTEMPTS_def)
  have ge: "\<not> failure_attempts (fresh_job\<lparr>attempts := Some 2\<rparr>) < MAX_ATTEMPTS"
    by (simp add: failure_attempts_def MAX_ATTEMPTS_def)
  have fa: "failure_attempts fresh_job = 1" by (simp add: failure_attempts_def fresh_job_def)
  have id: "applicationId fresh_job = ''app-1''" "next_id fresh_worker = 1"
    "events fresh_worker = []"
    by (simp_all add: fresh_job_def fresh_worker_def)
  have nb: "context_raises no_browser" by (simp add: no_browser_def)
  have cf: "\<not> context_raises caught_failure" "\<not> handler_raises caught_failure"
    "body caught_failure = Body_raised"
    by (simp_all add: caught_failure_def)
  have wr: "writes (failing_application fresh_job) = writes (applyWithBrowser caught_failure)"
    "thrown (failing_application fresh_job) = thrown (applyWithBrowser caught_failure)"
    by (simp_all add: failing_application_def)
  note r1 = retry_only_when_processJob_throws [where applyJob = failing_browser and job = fresh_job
      and ?w0.0 = fresh_worker and j = 0 and p = fresh_job and i = 0 and w = fresh_worker
      and n = 5 and env = no_browser, OF a s d]
  note r2 = retry_only_when_processJob_throws [where applyJob = failing_browser and job = fresh_job
      and ?w0.0 = fresh_worker and j = 0 and p = "fresh_job\<lparr>attempts := Some 2\<rparr>" and i = 0
      and w = fresh_worker and n = 5 and env = no_browser, OF a s d]
  note r3 = retry_only_when_processJob_throws [where applyJob = failing_application
      and job = fresh_job and ?w0.0 = fresh_worker and j = 0 and p = fresh_job and i = 0
      and w = fresh_worker and n = 5 and env = caught_failure, OF a s d]
  from r1 lt f have c1: "stream (handle_entry failing_browser 0 (Some fresh_job) fresh_worker)
       = stream fresh_worker @ [(1, Some (fresh_job\<lparr>attempts := Some 1\<rparr>))]"
    by (simp add: fa id)
  from r2 ge f have c2:
    "stream (handle_entry failing_browser 0 (Some (fresh_job\<lparr>attempts := Some 2\<rparr>)) fresh_worker)
       = stream fresh_worker"
    "db (handle_entry failing_browser 0 (Some (fresh_job\<lparr>attempts := Some 2\<rparr>)) fresh_worker)
         ''app-1'' = Some FAILED"
    by (simp_all add: id)
  from r1 f have c3:
    "map failure_attempts (delivered (run_worker failing_browser 5 fresh_worker)) = [1, 2, 3]"
    "db (run_worker failing_browser 5 fresh_worker) ''app-1'' = Some FAILED"
    "stream (run_worker failing_browser 5 fresh_worker) = []"
    "length (delivered (run_worker failing_browser 5 fresh_worker)) = 3"
    unfolding u by (simp_all add: id)
  from r1 nb have c4: "thrown (applyWithBrowser no_browser) \<noteq> None" by simp
  from r3 cf have c5: "thrown (applyWithBrowser caught_failure) = None"
    "writes (applyWithBrowser caught_failure) = [PROCESSING, FAILED]"
    by simp_all
  have c6: "thrown (failing_application fresh_job) = None" using c5 wr by simp
  from r3 c6 have c7:
    "stream (handle_entry failing_application 0 (Some fresh_job) fresh_worker)
       = stream fresh_worker"
    "events (handle_entry failing_application 0 (Some fresh_job) fresh_worker)
       = [\<lparr>ev_jobId = ''app-1'', ev_type = JOB_FINISHED, ev_message = Automation_completed\<rparr>]"
    "delivered (run_worker failing_application 5 fresh_worker) = [fresh_job]"
    "stream (run_worker failing_application 5 fresh_worker) = []"
    by (simp_all add: id)
  from r3 c6 have "db (run_worker failing_application 5 fresh_worker) ''app-1''
       = Some (last (PROCESSING # writes (failing_application fresh_job)))"
    by (simp add: id del: last.simps)
  then have c8: "db (run_worker failing_application 5 fresh_worker) ''app-1'' = Some FAILED"
    using c5 wr by simp
  have a': "attempts fresh_job = Some 0" by (simp add: fresh_job_def)
  from f a' s d lt ge c1 c2 c3 nb c4 cf c5 c6 c7 c8 show ?thesis by blast
qed

theorem caught_failure_not_retried_counterexample:
  "body caught_failure = Body_raised
   \<and> thrown (failing_application fresh_job) = None
   \<and> writes (failing_application fresh_job) = [PROCESSING, FAILED]
   \<and> delivered (run_worker failing_application 5 fresh_worker) = [fresh_job]
   \<and> attempts fresh_job = Some 0
   \<and> stream (run_worker failing_application 5 fresh_worker) = []
   \<and> pending (run_worker failing_application 5 fresh_worker) = []
   \<and> db (run_worker failing_application 5 fresh_worker) ''app-1'' = Some FAILED
   \<and> events (run_worker failing_application 5 fresh_worker)
       = [\<lparr>ev_jobId = ''app-1'', ev_type = JOB_FINISHED, ev_message = Automation_completed\<rparr>]"
proof -
  have a: "body caught_failure = Body_raised" by code_simp
  have b: "thrown (failing_application fresh_job) = None" by code_simp
  have c: "writes (failing_application fresh_job) = [PROCESSING, FAILED]" by code_simp
  have d: "delivered (run_worker failing_application 5 fresh_worker) = [fresh_job]" by code_simp
  have e: "attempts fresh_job = Some 0" by code_simp
  have f: "stream (run_worker failing_application 5 fresh_worker) = []" by code_simp
  have g: "pending (run_worker failing_application 5 fresh_worker) = []" by code_simp
  have h: "db (run_worker failing_application 5 fresh_worker) ''app-1'' = Some FAILED" by code_simp
  have k: "events (run_worker failing_application 5 fresh_worker)
       = [\<lparr>ev_jobId = ''app-1'', ev_type = JOB_FINISHED, ev_message = Automation_completed\<rparr>]"
    by code_simp
  from a b c d e f g h k show ?thesis by blast
qed

text \<open>
  The equation of \<open>form_loop\<close> mentions \<open>form_loop\<close> again: it is unfolded one step at
  a time.
\<close>

declare form_loop.simps [simp del]

lemma form_step_quiet:
  assumes "\<not> list_ex (\<lambda>v. v) (submit_visible obs)" "raises obs = []"
  shows "fst (form_step a step obs) = Continue \<or> fst (form_step a step obs) = Break"
  using assms by (simp add: form_step_def Let_def)

lemma form_step_clicks: "length (snd (form_step a step obs)) \<le> 1"
  by (simp add: form_step_def Let_def)

lemma form_loop_no_submit:
  "(\<And>k. step \<le> k \<Longrightarrow> k < MAX_STEPS \<Longrightarrow>
        \<not> list_ex (\<lambda>v. v) (submit_visible (env k)) \<and> raises (env k) = [])
   \<Longrightarrow> fst (form_loop a env step) = Inr RES_MANUAL"
proof (induction a env step rule: form_loop.induct)
  case (1 a env step)
  show ?case
  proof (cases "step < MAX_STEPS")
    case False
    then show ?thesis by (subst form_loop.simps) simp
  next
    case True
    from "1.prems" [of step] True
    have q: "\<not> list_ex (\<lambda>v. v) (submit_visible (env step))" "raises (env step) = []"
      by simp_all
    obtain e acts where st: "form_step a step (env step) = (e, acts)"
      by (cases "form_step a step (env step)")
    from form_step_quiet [OF q, of a step] st have e: "e = Continue \<or> e = Break" by simp
    then show ?thesis
    proof
      assume b: "e = Break"
      with True st show ?thesis by (subst form_loop.simps) simp
    next
      assume c: "e = Continue"
      have "fst (form_loop a env (Suc step)) = Inr RES_MANUAL"
        using "1.IH" [OF True st [symmetric, unfolded c] refl] "1.prems" by simp
      with True st c show ?thesis
        by (subst form_loop.simps) (auto split: prod.splits)
    qed
  qed
qed

lemma form_loop_clicks: "length (snd (form_loop a env step)) \<le> MAX_STEPS - step"
proof (induction a env step rule: form_loop.induct)
  case (1 a env step)
  show ?case
  proof (cases "step < MAX_STEPS")
    case False
    then show ?thesis by (subst form_loop.simps) simp
  next
    case True
    obtain e acts where st: "form_step a step (env step) = (e, acts)"
      by (cases "form_step a step (env step)")
    from form_step_clicks [of a step "env step"] st have l: "length acts \<le> 1" by simp
    show ?thesis
    proof (cases e)
      case Continue
      have "length (snd (form_loop a env (Suc step))) \<le> MAX_STEPS - Suc step"
        using "1.IH" [OF True st [symmetric, unfolded Continue] refl] .
      with True st Continue l show ?thesis
        by (subst form_loop.simps) (auto split: prod.splits)
    next
      case (Return r)
      with True st l show ?thesis by (subst form_loop.simps) simp
    next
      case Break
      with True st l show ?thesis by (subst form_loop.simps) simp
    next
      case Raise
      with True st l show ?thesis by (subst form_loop.simps) simp
    qed
  qed
qed

lemma form_step_priority:
  assumes "decision_reached step obs"
  shows "case spec_next_action (list_ex (\<lambda>v. v) (submit_visible obs)) (review_visible obs)
              (next_visible obs) of
           Submit \<Rightarrow> set (snd (form_step a step obs)) \<subseteq> {Click_Submit}
                     \<and> fst (form_step a step obs) \<in> {Return RES_APPLIED, Return RES_MANUAL, Raise}
         | Review \<Rightarrow> snd (form_step a step obs) = [Click_Review]
                     \<and> fst (form_step a step obs) \<in> {Continue, Raise}
         | Next \<Rightarrow> snd (form_step a step obs) = [Click_Next]
                   \<and> fst (form_step a step obs) \<in> {Continue, Raise}
         | Stall \<Rightarrow> snd (form_step a step obs) = []
                    \<and> fst (form_step a step obs) \<in> {Continue, Break, Raise}"
  using assms
  by (auto simp: decision_reached_def spec_next_action_def form_step_def Let_def)

lemma form_step_submit:
  assumes "decision_reached step obs" "list_ex (\<lambda>v. v) (submit_visible obs)"
    "\<not> List.member (raises obs) SubmitClick" "\<not> List.member (raises obs) SubmitWait"
  shows "form_step a step obs
           = (if a then (Return RES_APPLIED, [Click_Submit]) else (Return RES_MANUAL, []))"
  using assms by (auto simp: decision_reached_def form_step_def Let_def)

text \<open>
  C2, amended. In each of the at most \<open>MAX_STEPS\<close> = 7 steps, once the fields are
  filled the action follows the priority Submit > Review > Next > Stall: with a
  submit button visible the step only ever clicks Submit and ends the run (applied, or
  manual when \<open>AUTO_SUBMIT\<close> is off), whatever else is visible; otherwise with a review
  button visible it clicks Review, otherwise with a next button visible it clicks Next,
  otherwise it clicks nothing. A step clicks at most once, so a run clicks at most seven
  times. A run in which no step sees a submit button and no unguarded page operation
  raises ends with \<open>"MANUAL"\<close>, stored as \<open>MANUAL_INTERVENTION\<close>. The condition on page
  operations is needed: the loop awaits several of them without a guard (the fills,
  the waits, the button query of the give-up check), and when one rejects the
  exception leaves \<open>applyLinkedIn\<close> instead of the result \<open>"MANUAL"\<close>, as in the
  counterexample, where no button is ever visible and the query of the third step
  fails.
\<close>

theorem form_loop_priority_and_stall:
  "(decision_reached step obs \<longrightarrow>
      (case spec_next_action (list_ex (\<lambda>v. v) (submit_visible obs)) (review_visible obs)
              (next_visible obs) of
           Submit \<Rightarrow> set (snd (form_step a step obs)) \<subseteq> {Click_Submit}
                     \<and> fst (form_step a step obs) \<in> {Return RES_APPLIED, Return RES_MANUAL, Raise}
         | Review \<Rightarrow> snd (form_step a step obs) = [Click_Review]
                     \<and> fst (form_step a step obs) \<in> {Continue, Raise}
         | Next \<Rightarrow> snd (form_step a step obs) = [Click_Next]
                   \<and> fst (form_step a step obs) \<in> {Continue, Raise}
         | Stall \<Rightarrow> snd (form_step a step obs) = []
                    \<and> fst (form_step a step obs) \<in> {Continue, Break, Raise}))
   \<and> (decision_reached step obs \<and> list_ex (\<lambda>v. v) (submit_visible obs)
        \<and> \<not> List.member (raises obs) SubmitClick \<and> \<not> List.member (raises obs) SubmitWait \<longrightarrow>
        form_step a step obs
          = (if a then (Return RES_APPLIED, [Click_Submit]) else (Return RES_MANUAL, [])))
   \<and> length (snd (form_loop a env 0)) \<le> MAX_STEPS
   \<and> ((\<forall>k < MAX_STEPS. \<not> list_ex (\<lambda>v. v) (submit_visible (env k)) \<and> raises (env k) = []) \<longrightarrow>
        fst (form_loop a env 0) = Inr RES_MANUAL)
   \<and> ((\<forall>k < MAX_STEPS. \<not> list_ex (\<lambda>v. v) (submit_visible (steps page k))
                        \<and> raises (steps page k) = [])
        \<and> \<not> str_includes (pageText page) ''No longer accepting applications''
        \<and> findEasyApply (candidates page) \<noteq> None \<and> \<not> activate_raises page \<longrightarrow>
        fst (applyLinkedIn a page) = Inr RES_MANUAL
        \<and> status_of_result RES_MANUAL = MANUAL_INTERVENTION)"
proof -
  have loop: "fst (form_loop a env' 0) = Inr RES_MANUAL"
    if "\<forall>k < MAX_STEPS. \<not> list_ex (\<lambda>v. v) (submit_visible (env' k)) \<and> raises (env' k) = []"
    for env'
    using that by (intro form_loop_no_submit) simp
  have page: "fst (applyLinkedIn a page) = Inr RES_MANUAL
        \<and> status_of_result RES_MANUAL = MANUAL_INTERVENTION"
    if q: "\<forall>k < MAX_STEPS. \<not> list_ex (\<lambda>v. v) (submit_visible (steps page k))
                        \<and> raises (steps page k) = []"
      and o: "\<not> str_includes (pageText page) ''No longer accepting applications''"
        "findEasyApply (candidates page) \<noteq> None" "\<not> activate_raises page"
  proof -
    from loop [OF q] obtain acts where "form_loop a (steps page) 0 = (Inr RES_MANUAL, acts)"
      by (cases "form_loop a (steps page) 0") simp
    with o show ?thesis
      by (auto simp: applyLinkedIn_def status_of_result_def)
  qed
  from form_step_priority [of step obs a] form_step_submit [of step obs a]
    form_loop_clicks [of a env 0] loop [of env] page
  show ?thesis by simp
qed

theorem form_loop_priority_and_stall_witness:
  "decision_reached 0 next_only
   \<and> spec_next_action (list_ex (\<lambda>v. v) (submit_visible next_only)) (review_visible next_only)
        (next_visible next_only) = Next
   \<and> form_step True 0 next_only = (Continue, [Click_Next])
   \<and> (\<forall>k. \<not> list_ex (\<lambda>v. v) (submit_visible (every_step next_only k))
            \<and> raises (every_step next_only k) = [])
   \<and> fst (form_loop True (every_step next_only) 0) = Inr RES_MANUAL
   \<and> applyLinkedIn True (job_page ''Full Stack Developer'' [Shown ''BUTTON'' []] next_only)
       = (Inr RES_MANUAL, [Activate, Click_Next, Click_Next, Click_Next, Click_Next, Click_Next,
                           Click_Next, Click_Next])"
proof -
  have d: "decision_reached 0 next_only" by code_simp
  have n: "spec_next_action (list_ex (\<lambda>v. v) (submit_visible next_only)) (review_visible next_only)
        (next_visible next_only) = Next" by code_simp
  have s: "form_step True 0 next_only = (Continue, [Click_Next])" by code_simp
  have q: "\<forall>k. \<not> list_ex (\<lambda>v. v) (submit_visible (every_step next_only k))
                \<and> raises (every_step next_only k) = []"
    by (simp add: every_step_def next_only_def)
  have r: "applyLinkedIn True (job_page ''Full Stack Developer'' [Shown ''BUTTON'' []] next_only)
       = (Inr RES_MANUAL, [Activate, Click_Next, Click_Next, Click_Next, Click_Next, Click_Next,
                           Click_Next, Click_Next])"
    by code_simp
  from d n s q r
    form_loop_priority_and_stall [of 0 next_only True "every_step next_only"
      "job_page ''Full Stack Developer'' [Shown ''BUTTON'' []] next_only"]
  show ?thesis by simp
qed

theorem form_loop_exception_counterexample:
  "\<not> list_ex (\<lambda>v. v) (submit_visible query_fails)
   \<and> form_loop True (every_step query_fails) 0 = (Inl Page_error, [])
   \<and> applyLinkedIn True (job_page ''Full Stack Developer'' [Shown ''BUTTON'' []] query_fails)
       = (Inl Page_error, [Activate])"
proof -
  have a: "\<not> list_ex (\<lambda>v. v) (submit_visible query_fails)" by code_simp
  have b: "form_loop True (every_step query_fails) 0 = (Inl Page_error, [])" by code_simp
  have c: "applyLinkedIn True (job_page ''Full Stack Developer'' [Shown ''BUTTON'' []] query_fails)
       = (Inl Page_error, [Activate])" by code_simp
  from a b c show ?thesis by blast
qed



text \<open>
  C6. No write of the engine looks at the current state of the application, and a
  terminal state is written over in two ways. First, the final write sits inside the
  \<open>try\<close> block and awaited steps follow it there: in \<open>runFullAutomation\<close> the
  notification and, after \<open>APPLIED\<close>, a navigation, a wait of the page and the message
  to the job poster; in \<open>applyWithBrowser\<close> the notification and the publication of an
  event. When one of them raises (the page is closed during the wait), the error handler
  writes \<open>FAILED\<close> for an application that has been submitted and recorded as
  \<open>APPLIED\<close>: the writes are \<open>PROCESSING\<close>, \<open>APPLIED\<close>, \<open>FAILED\<close>. Second, when
  the error handler of \<open>applyWithBrowser\<close> raises after its write of \<open>FAILED\<close>, the
  worker puts the job back into the stream, and the next delivery writes \<open>PROCESSING\<close>
  over \<open>FAILED\<close>, then whatever state that delivery ends in, here \<open>APPLIED\<close>.
\<close>

theorem terminal_state_overwritten:
  "direct_apply page_closed_after_submit = [PROCESSING, APPLIED, FAILED]
   \<and> terminal APPLIED
   \<and> \<not> never_reentered (direct_apply page_closed_after_submit)
   \<and> writes (applyWithBrowser notification_fails_after_submit) = [PROCESSING, APPLIED, FAILED]
   \<and> \<not> never_reentered (writes (applyWithBrowser notification_fails_after_submit))
   \<and> PROCESSING # writes (submitted_on_redelivery fresh_job) = [PROCESSING, PROCESSING, FAILED]
   \<and> thrown (submitted_on_redelivery fresh_job) = Some ''Connection is closed.''
   \<and> db (run_worker submitted_on_redelivery 1 fresh_worker) ''app-1'' = Some FAILED
   \<and> terminal FAILED
   \<and> stream (run_worker submitted_on_redelivery 1 fresh_worker)
       = [(1, Some (fresh_job\<lparr>attempts := Some 1\<rparr>))]
   \<and> PROCESSING # writes (submitted_on_redelivery (fresh_job\<lparr>attempts := Some 1\<rparr>))
       = [PROCESSING, PROCESSING, APPLIED]
   \<and> db (run_worker submitted_on_redelivery 2 fresh_worker) ''app-1'' = Some APPLIED
   \<and> \<not> never_reentered
          ((PROCESSING # writes (submitted_on_redelivery fresh_job))
           @ (PROCESSING # writes (submitted_on_redelivery (fresh_job\<lparr>attempts := Some 1\<rparr>))))"
proof -
  have a: "direct_apply page_closed_after_submit = [PROCESSING, APPLIED, FAILED]" by code_simp
  have b: "terminal APPLIED" by code_simp
  have c: "\<not> never_reentered (direct_apply page_closed_after_submit)" by code_simp
  have d: "writes (applyWithBrowser notification_fails_after_submit)
             = [PROCESSING, APPLIED, FAILED]"
    by code_simp
  have e: "\<not> never_reentered (writes (applyWithBrowser notification_fails_after_submit))"
    by code_simp
  have f: "PROCESSING # writes (submitted_on_redelivery fresh_job)
             = [PROCESSING, PROCESSING, FAILED]"
    by code_simp
  have g: "thrown (submitted_on_redelivery fresh_job) = Some ''Connection is closed.''"
    by code_simp
  have h: "db (run_worker submitted_on_redelivery 1 fresh_worker) ''app-1'' = Some FAILED"
    by code_simp
  have i: "terminal FAILED" by code_simp
  have j: "stream (run_worker submitted_on_redelivery 1 fresh_worker)
             = [(1, Some (fresh_job\<lparr>attempts := Some 1\<rparr>))]"
    by code_simp
  have l: "PROCESSING # writes (submitted_on_redelivery (fresh_job\<lparr>attempts := Some 1\<rparr>))
             = [PROCESSING, PROCESSING, APPLIED]"
    by code_simp
  have m: "db (run_worker submitted_on_redelivery 2 fresh_worker) ''app-1'' = Some APPLIED"
    by code_simp
  have n: "\<not> never_reentered
          ((PROCESSING # writes (submitted_on_redelivery fresh_job))
           @ (PROCESSING # writes (submitted_on_redelivery (fresh_job\<lparr>attempts := Some 1\<rparr>))))"
    by code_simp
  from a b c d e f g h i j l m n show ?thesis by blast
qed

end
